theory Spec2Isabelle
  imports Complex_Main "HOL-Library.Word" "HOL-Library.Product_Lexorder"
begin

section \<open>The deforming-plate dataset of physicsnemo/datapipes/gnn\<close>

text \<open>
  A shallow embedding of \<^verbatim>\<open>DeformingPlateDataset\<close>
  (\<^verbatim>\<open>src/physicsnemo/datapipes/gnn/deforming_plate_dataset.py\<close>).

  Conventions of the embedding.
  \<^item> Floating-point tensors are nested lists of \<^typ>\<open>real\<close>: a rank-1 tensor is a
    \<open>vec\<close>, a rank-2 tensor (rows by channels) a \<open>mat\<close>, a rank-3 tensor (time by
    node by channel) a \<open>tens3\<close>. Rounding, infinities and NaN are not represented;
    where torch would produce NaN or an infinity (the mean of a tensor with no
    element, a division by a zero standard deviation) the theorems that state a
    value carry a hypothesis that excludes the input, and the theorems about
    indexing and about what a sample consists of do not depend on the values.
  \<^item> The shape of a tensor is read off the nested list, so a tensor with an axis
    of length zero has no recorded trailing dimension; the theorems about
    shapes are stated for tensors with at least one row.
  \<^item> Every \<^verbatim>\<open>raise\<close> of the source, and every exception of an indexing or a
    library call the source relies on, is a value \<open>Inl e\<close> of \<open>error + 'a\<close>.
  \<^item> Node identifiers are natural numbers (DGL rejects negative identifiers).
  \<^item> The uint8 node-type tensor is a list of \<^typ>\<open>8 word\<close>.
\<close>

subsection \<open>Errors and Python indexing\<close>

datatype error =
    IndexError
  | ZeroDivisionError
  | AssertionError
  | ValueError
  | RuntimeError
  | TypeError
  | KeyError
  | DGLError
  | OutOfRangeError

definition err_bind :: "error + 'a \<Rightarrow> ('a \<Rightarrow> error + 'b) \<Rightarrow> error + 'b" where
  "err_bind m f = (case m of Inl e \<Rightarrow> Inl e | Inr x \<Rightarrow> f x)"

text \<open>Applies \<open>f\<close> to the elements from left to right and stops at the first error.\<close>

fun err_map :: "('a \<Rightarrow> error + 'b) \<Rightarrow> 'a list \<Rightarrow> error + 'b list" where
  "err_map f [] = Inr []"
| "err_map f (x # xs) =
     (case f x of
        Inl e \<Rightarrow> Inl e
      | Inr y \<Rightarrow> (case err_map f xs of Inl e \<Rightarrow> Inl e | Inr ys \<Rightarrow> Inr (y # ys)))"

text \<open>\<^verbatim>\<open>xs[i]\<close> on a Python list or along the first axis of a tensor: a negative
  index counts from the end, an index out of range raises IndexError.\<close>

definition py_get :: "'a list \<Rightarrow> int \<Rightarrow> error + 'a" where
  "py_get xs i =
     (if 0 \<le> i \<and> i < int (length xs) then Inr (xs ! nat i)
      else if - int (length xs) \<le> i \<and> i < 0 then Inr (xs ! nat (i + int (length xs)))
      else Inl IndexError)"

text \<open>\<^verbatim>\<open>arr[:k]\<close>: the first \<open>k\<close> elements, or all but the last \<open>-k\<close> when \<open>k\<close> is
  negative.\<close>

definition py_slice_to :: "int \<Rightarrow> 'a list \<Rightarrow> 'a list" where
  "py_slice_to k xs = (if 0 \<le> k then take (nat k) xs else take (nat (int (length xs) + k)) xs)"

subsection \<open>Tensors\<close>

type_synonym vec = "real list"
type_synonym mat = "real list list"
type_synonym tens3 = "real list list list"

text \<open>\<^verbatim>\<open>t.size()[-1]\<close> for a rank-2 and a rank-3 tensor.\<close>

definition size_last2 :: "'a list list \<Rightarrow> nat" where
  "size_last2 X = (case X of [] \<Rightarrow> 0 | r # _ \<Rightarrow> length r)"

definition size_last3 :: "'a list list list \<Rightarrow> nat" where
  "size_last3 X = (case X of [] \<Rightarrow> 0 | F # _ \<Rightarrow> size_last2 F)"

text \<open>The tensor has shape \<open>(R, C)\<close>, respectively \<open>(T, N, C)\<close>.\<close>

definition has_shape2 :: "'a list list \<Rightarrow> nat \<Rightarrow> nat \<Rightarrow> bool" where
  "has_shape2 X R C \<longleftrightarrow> length X = R \<and> list_all (\<lambda>r. length r = C) X"

definition has_shape3 :: "'a list list list \<Rightarrow> nat \<Rightarrow> nat \<Rightarrow> nat \<Rightarrow> bool" where
  "has_shape3 X T N C \<longleftrightarrow> length X = T \<and> list_all (\<lambda>F. has_shape2 F N C) X"

text \<open>Elementwise operations of two tensors of the same shape.\<close>

definition vsub :: "vec \<Rightarrow> vec \<Rightarrow> vec" where
  "vsub a b = map2 (-) a b"

definition msub :: "mat \<Rightarrow> mat \<Rightarrow> mat" where
  "msub A B = map2 vsub A B"

text \<open>\<^verbatim>\<open>torch.cat((A, B), dim=-1)\<close> of two rank-2 tensors: the row counts must
  agree.\<close>

definition cat_last :: "mat \<Rightarrow> mat \<Rightarrow> error + mat" where
  "cat_last A B = (if length A \<noteq> length B then Inl RuntimeError else Inr (map2 (@) A B))"

text \<open>\<^verbatim>\<open>torch.mean(X, dim=0)\<close> of a rank-2 tensor and \<^verbatim>\<open>torch.mean(X, dim=(0, 1))\<close>
  of a rank-3 tensor: one mean per channel, over all rows.\<close>

definition column :: "nat \<Rightarrow> mat \<Rightarrow> real list" where
  "column c X = map (\<lambda>r. r ! c) X"

definition mean_rows :: "mat \<Rightarrow> vec" where
  "mean_rows X = map (\<lambda>c. sum_list (column c X) / real (length X)) [0 ..< size_last2 X]"

definition mean_dim0 :: "mat \<Rightarrow> vec" where
  "mean_dim0 X = mean_rows X"

definition mean_dim01 :: "tens3 \<Rightarrow> vec" where
  "mean_dim01 X = mean_rows (concat X)"

definition square2 :: "mat \<Rightarrow> mat" where
  "square2 X = map (map (\<lambda>x. x * x)) X"

definition square3 :: "tens3 \<Rightarrow> tens3" where
  "square3 X = map square2 X"

subsection \<open>Topology builder\<close>

text \<open>\<^verbatim>\<open>cells[i][a]\<close> for one of the constant positions 0 to 3.\<close>

definition cell_get :: "nat list \<Rightarrow> nat \<Rightarrow> error + nat" where
  "cell_get cell a = (if a < length cell then Inr (cell ! a) else Inl IndexError)"

definition edge_indices :: "(nat \<times> nat) list" where
  "edge_indices = [(0, 1), (0, 2), (0, 3), (1, 2), (1, 3), (2, 3)]"

text \<open>\<^verbatim>\<open>cell_to_adj\<close>: the two comprehensions run over the cells and, for each cell,
  over the six position pairs.\<close>

definition cell_to_adj :: "nat list list \<Rightarrow> error + (nat list \<times> nat list)" where
  "cell_to_adj cells =
     err_bind (err_map (\<lambda>(cell, (a, b)). cell_get cell a) (List.product cells edge_indices))
       (\<lambda>src. err_bind (err_map (\<lambda>(cell, (a, b)). cell_get cell b) (List.product cells edge_indices))
         (\<lambda>dst. Inr (src, dst)))"

text \<open>A DGL graph: the number of nodes, the directed edges in the order of their
  edge identifiers, and the feature dictionaries \<^verbatim>\<open>edata\<close> and \<^verbatim>\<open>ndata\<close> with the keys
  this dataset uses (\<open>None\<close>: the key is absent).\<close>

record graph =
  num_nodes :: nat
  edges :: "(nat \<times> nat) list"
  edata_x :: "mat option"
  ndata_x :: "mat option"
  ndata_y :: "mat option"
  ndata_mesh_pos :: "mat option"

text \<open>The DGL library calls, after DGL's documentation: \<^verbatim>\<open>dgl.graph((src, dst))\<close> has
  one edge per position of the two lists and the nodes \<open>0\<close> to the largest
  identifier; \<^verbatim>\<open>dgl.to_bidirected\<close> is \<^verbatim>\<open>add_reverse_edges\<close> followed by \<^verbatim>\<open>to_simple\<close>,
  which keeps one copy of each edge, in the order of (source, destination).\<close>

definition dgl_graph :: "nat list \<Rightarrow> nat list \<Rightarrow> error + graph" where
  "dgl_graph src dst =
     (if length src \<noteq> length dst then Inl DGLError
      else Inr \<lparr>num_nodes = (case src @ dst of [] \<Rightarrow> 0 | _ \<Rightarrow> Suc (fold max (src @ dst) 0)),
                edges = zip src dst,
                edata_x = None, ndata_x = None, ndata_y = None, ndata_mesh_pos = None\<rparr>)"

definition add_reverse_edges :: "graph \<Rightarrow> graph" where
  "add_reverse_edges g = g\<lparr>edges := edges g @ map (\<lambda>(u, v). (v, u)) (edges g)\<rparr>"

definition to_simple :: "graph \<Rightarrow> graph" where
  "to_simple g = g\<lparr>edges := sort (remdups (edges g))\<rparr>"

definition to_bidirected :: "graph \<Rightarrow> graph" where
  "to_bidirected g = to_simple (add_reverse_edges g)"

definition create_graph :: "nat list \<Rightarrow> nat list \<Rightarrow> error + graph" where
  "create_graph src dst = err_bind (dgl_graph src dst) (\<lambda>g. Inr (to_bidirected g))"

text \<open>Assigning a node feature: DGL refuses a tensor whose row count is not the
  number of nodes.\<close>

definition check_ndata :: "graph \<Rightarrow> mat \<Rightarrow> error + mat" where
  "check_ndata g X = (if length X \<noteq> num_nodes g then Inl DGLError else Inr X)"

subsection \<open>Feature deriver\<close>

definition norm2 :: "vec \<Rightarrow> real" where
  "norm2 d = sqrt (sum_list (map (\<lambda>x. x * x) d))"

text \<open>\<^verbatim>\<open>add_edge_features\<close>: \<^verbatim>\<open>pos[row]\<close> and \<^verbatim>\<open>pos[col]\<close> raise IndexError for a node
  identifier beyond the rows of \<open>pos\<close>.\<close>

definition edge_feature :: "mat \<Rightarrow> nat \<times> nat \<Rightarrow> vec" where
  "edge_feature pos e = (let disp = vsub (pos ! fst e) (pos ! snd e) in disp @ [norm2 disp])"

definition add_edge_features :: "graph \<Rightarrow> mat \<Rightarrow> error + graph" where
  "add_edge_features g pos =
     (if list_ex (\<lambda>(u, v). length pos \<le> u \<or> length pos \<le> v) (edges g) then Inl IndexError
      else Inr (g\<lparr>edata_x := Some (map (edge_feature pos) (edges g))\<rparr>))"

text \<open>The temporal alignment. The arrays are floating-point already, so the cast
  \<^verbatim>\<open>dtype=torch.float\<close> changes no value of the model.\<close>

definition drop_last :: "tens3 \<Rightarrow> tens3" where
  "drop_last invar = butlast invar"

definition push_forward :: "tens3 \<Rightarrow> tens3" where
  "push_forward invar = tl invar"

definition push_forward_diff :: "tens3 \<Rightarrow> tens3" where
  "push_forward_diff invar = map2 msub (tl invar) (butlast invar)"

text \<open>\<^verbatim>\<open>_add_noise\<close> is disabled in the source: it returns its arguments.\<close>

definition add_noise :: "tens3 \<Rightarrow> tens3 \<Rightarrow> real \<Rightarrow> bool list \<Rightarrow> tens3 \<times> tens3" where
  "add_noise features targets noise_std noise_mask = (features, targets)"

subsection \<open>Normalizer\<close>

definition vdiv :: "vec \<Rightarrow> vec \<Rightarrow> vec" where
  "vdiv a b = map2 (/) a b"

text \<open>\<^verbatim>\<open>normalize_node\<close>: \<open>mu\<close> and \<open>std\<close> are rank-1 tensors, one value per channel;
  after the check \<^verbatim>\<open>expand\<close> repeats them along the leading axes.\<close>

definition normalize_node :: "tens3 \<Rightarrow> vec \<Rightarrow> vec \<Rightarrow> error + tens3" where
  "normalize_node invar mu std =
     (if size_last3 invar \<noteq> length mu \<or> size_last3 invar \<noteq> length std then Inl AssertionError
      else Inr (map (map (\<lambda>r. vdiv (vsub r mu) std)) invar))"

definition normalize_edge :: "graph \<Rightarrow> vec \<Rightarrow> vec \<Rightarrow> error + mat" where
  "normalize_edge g mu std =
     (case edata_x g of
        None \<Rightarrow> Inl KeyError
      | Some X \<Rightarrow>
          if size_last2 X \<noteq> length mu \<or> size_last2 X \<noteq> length std then Inl AssertionError
          else Inr (map (\<lambda>r. vdiv (vsub r mu) std) X))"

text \<open>Broadcasting of torch along the last axis: two sizes are compatible when
  they are equal or one of them is 1.\<close>

definition bcast :: "(real \<Rightarrow> real \<Rightarrow> real) \<Rightarrow> vec \<Rightarrow> vec \<Rightarrow> error + vec" where
  "bcast f r v =
     (if length r = length v then Inr (map2 f r v)
      else if length v = 1 then Inr (map (\<lambda>a. f a (hd v)) r)
      else if length r = 1 then Inr (map (f (hd r)) v)
      else Inl RuntimeError)"

text \<open>\<^verbatim>\<open>denormalize\<close>: \<^verbatim>\<open>invar * std + mu\<close>, with no check of its own.\<close>

definition denormalize :: "tens3 \<Rightarrow> vec \<Rightarrow> vec \<Rightarrow> error + tens3" where
  "denormalize invar mu std =
     err_map (err_map (\<lambda>r. err_bind (bcast (*) r std) (\<lambda>p. bcast (+) p mu))) invar"

subsection \<open>Node-type encoder\<close>

text \<open>The encoder receives the uint8 tensor of shape \<open>(N, 1)\<close> built by the
  constructor; \<^verbatim>\<open>torch.squeeze\<close> removes the trailing axis, so the tensor is the
  list of its \<open>N\<close> codes. \<^verbatim>\<open>torch.full_like(node_type, fill_value=-1)\<close> fills a uint8
  tensor, where \<open>-1\<close> is 255, and the comparison with \<open>-1\<close> is one of uint8 values.\<close>

definition mapping :: "(8 word \<times> 8 word) list" where
  "mapping = [(0, 0), (1, 1), (3, 2)]"

definition assign_where :: "8 word list \<Rightarrow> 8 word \<times> 8 word \<Rightarrow> 8 word list \<Rightarrow> 8 word list" where
  "assign_where node_type kv mapped = map2 (\<lambda>c m. if c = fst kv then snd kv else m) node_type mapped"

text \<open>\<^verbatim>\<open>F.one_hot(x, num_classes)\<close> of one class value.\<close>

definition one_hot :: "nat \<Rightarrow> nat \<Rightarrow> error + nat list" where
  "one_hot num_classes k =
     (if num_classes \<le> k then Inl RuntimeError
      else Inr (map (\<lambda>j. if j = k then 1 else 0) [0 ..< num_classes]))"

definition one_hot_encode :: "8 word list \<Rightarrow> error + nat list list" where
  "one_hot_encode node_type =
     (let mapped = fold (assign_where node_type) mapping (replicate (length node_type) (- 1))
      in if list_ex (\<lambda>m. m = - 1) mapped then Inl ValueError
         else err_map (\<lambda>m. one_hot 3 (unat m)) mapped)"

text \<open>The value the loop over \<open>mapping\<close> leaves in \<open>mapped\<close> for one code.\<close>

definition encode_code :: "8 word \<Rightarrow> 8 word" where
  "encode_code c = (if c = 3 then 2 else if c = 1 then 1 else if c = 0 then 0 else - 1)"

definition get_rollout_mask :: "8 word list \<Rightarrow> bool list" where
  "get_rollout_mask node_type = map (\<lambda>c. c = 0 \<or> c = 0 + 1) node_type"

subsection \<open>Streaming statistics engine\<close>

text \<open>An accumulator of the statistics dictionary: it starts as the Python number
  \<open>0\<close> and becomes a tensor at the first \<^verbatim>\<open>+=\<close>.\<close>

datatype stat = Num real | Tensor vec

definition stat_add :: "stat \<Rightarrow> vec \<Rightarrow> error + stat" where
  "stat_add s v =
     (case s of
        Num a \<Rightarrow> Inr (Tensor (map (\<lambda>x. a + x) v))
      | Tensor u \<Rightarrow>
          if length u = length v then Inr (Tensor (map2 (+) u v))
          else if length v = 1 then Inr (Tensor (map (\<lambda>x. x + hd v) u))
          else Inl RuntimeError)"

definition div_by :: "vec \<Rightarrow> int \<Rightarrow> vec" where
  "div_by v n = map (\<lambda>x. x / real_of_int n) v"

text \<open>The loop \<^verbatim>\<open>for i in range(self.num_samples)\<close> of \<^verbatim>\<open>_get_edge_stats\<close> and
  \<^verbatim>\<open>_get_node_stats\<close> for one feature group: \<open>fetch i\<close> is the mean and the mean of
  the squares of trajectory \<open>i\<close>.\<close>

fun stats_loop ::
  "(nat \<Rightarrow> error + vec \<times> vec) \<Rightarrow> int \<Rightarrow> nat list \<Rightarrow> stat \<times> stat \<Rightarrow> error + stat \<times> stat" where
  "stats_loop fetch n [] acc = Inr acc"
| "stats_loop fetch n (i # rest) acc =
     err_bind (fetch i) (\<lambda>(m, q).
     err_bind (stat_add (fst acc) (div_by m n)) (\<lambda>mean.
     err_bind (stat_add (snd acc) (div_by q n)) (\<lambda>meansqr.
     stats_loop fetch n rest (mean, meansqr))))"

text \<open>\<^verbatim>\<open>torch.sqrt(meansqr - torch.square(mean))\<close>; \<^verbatim>\<open>torch.square\<close> refuses a Python
  number, which is what the accumulators still are when the loop never ran.\<close>

fun finish_stats :: "stat \<times> stat \<Rightarrow> error + vec \<times> vec" where
  "finish_stats (Tensor mean, Tensor meansqr) =
     Inr (mean, map2 (\<lambda>q m. sqrt (q - m * m)) meansqr mean)"
| "finish_stats (mean, meansqr) = Inl TypeError"

definition group_stats :: "(nat \<Rightarrow> error + vec \<times> vec) \<Rightarrow> int \<Rightarrow> error + vec \<times> vec" where
  "group_stats fetch num_samples =
     err_bind (stats_loop fetch num_samples [0 ..< nat num_samples] (Num 0, Num 0)) finish_stats"

record edge_stats =
  edge_mean :: vec
  edge_std :: vec

record node_stats =
  world_pos_mean :: vec
  world_pos_std :: vec
  world_pos_diff_mean :: vec
  world_pos_diff_std :: vec
  stress_mean :: vec
  stress_std :: vec

definition fetch_edge :: "graph list \<Rightarrow> nat \<Rightarrow> error + vec \<times> vec" where
  "fetch_edge graphs i =
     err_bind (py_get graphs (int i)) (\<lambda>g.
       case edata_x g of
         None \<Rightarrow> Inl KeyError
       | Some X \<Rightarrow> Inr (mean_dim0 X, mean_dim0 (square2 X)))"

definition get_edge_stats :: "int \<Rightarrow> graph list \<Rightarrow> error + edge_stats" where
  "get_edge_stats num_samples graphs =
     err_bind (group_stats (fetch_edge graphs) num_samples)
       (\<lambda>(mean, std). Inr \<lparr>edge_mean = mean, edge_std = std\<rparr>)"

definition fetch_node :: "tens3 list \<Rightarrow> nat \<Rightarrow> error + vec \<times> vec" where
  "fetch_node tensors i =
     err_bind (py_get tensors (int i)) (\<lambda>X. Inr (mean_dim01 X, mean_dim01 (square3 X)))"

text \<open>\<^verbatim>\<open>_get_node_stats\<close>. The source accumulates the three feature groups in one
  loop; they share nothing, so the loop is run once for each group.\<close>

definition get_node_stats :: "int \<Rightarrow> tens3 list \<Rightarrow> tens3 list \<Rightarrow> tens3 list \<Rightarrow> error + node_stats" where
  "get_node_stats num_samples features_world_pos targets_world_pos targets_stress =
     err_bind (group_stats (fetch_node features_world_pos) num_samples) (\<lambda>(wm, ws).
     err_bind (group_stats (fetch_node targets_stress) num_samples) (\<lambda>(sm, ss).
     err_bind (group_stats (fetch_node targets_world_pos) num_samples) (\<lambda>(dm, ds).
     Inr \<lparr>world_pos_mean = wm, world_pos_std = ws,
          world_pos_diff_mean = dm, world_pos_diff_std = ds,
          stress_mean = sm, stress_std = ss\<rparr>)))"






subsection \<open>Dataset construction\<close>

text \<open>One decoded trajectory of the TFRecord file, every field with the time axis
  first. The node types have shape \<open>(T, N, 1)\<close> in the file; the trailing axis of
  length one is not represented.\<close>

record trajectory =
  cells :: "nat list list list"
  mesh_pos :: tens3
  node_type :: "int list list"
  world_pos :: tens3
  stress :: tens3

text \<open>The loop \<^verbatim>\<open>for i in range(self.num_samples): data_np = dataset_iterator.get_next()\<close>:
  the iterator is the list of the trajectories not yet read, and \<^verbatim>\<open>get_next\<close> on
  an exhausted iterator raises OutOfRangeError.\<close>

fun load_loop ::
  "(nat \<Rightarrow> trajectory \<Rightarrow> error + 'a) \<Rightarrow> nat list \<Rightarrow> trajectory list \<Rightarrow> error + 'a list" where
  "load_loop f [] it = Inr []"
| "load_loop f (i # rest) [] = Inl OutOfRangeError"
| "load_loop f (i # rest) (data # it) =
     err_bind (f i data) (\<lambda>y. err_bind (load_loop f rest it) (\<lambda>ys. Inr (y # ys)))"

text \<open>What one pass of the first loop of \<^verbatim>\<open>__init__\<close> appends to the lists.\<close>

record graph_entry =
  entry_graph :: graph
  entry_node_type :: "nat list list"
  entry_noise_mask :: "bool list"
  entry_mesh_pos :: mat
  entry_cells :: "nat list list"
  entry_rollout_mask :: "bool list"

definition graph_step :: "int \<Rightarrow> nat \<Rightarrow> trajectory \<Rightarrow> error + graph_entry" where
  "graph_step num_steps i data =
     err_bind (py_get (py_slice_to num_steps (cells data)) 0) (\<lambda>cells0.
     err_bind (cell_to_adj cells0) (\<lambda>(src, dst).
     err_bind (create_graph src dst) (\<lambda>g.
     err_bind (py_get (py_slice_to num_steps (mesh_pos data)) 0) (\<lambda>pos0.
     err_bind (add_edge_features g pos0) (\<lambda>g'.
     err_bind (py_get (py_slice_to num_steps (node_type data)) 0) (\<lambda>codes.
       let nt = map of_int codes :: 8 word list in
       err_bind (one_hot_encode nt) (\<lambda>oh.
         Inr \<lparr>entry_graph = g', entry_node_type = oh,
              entry_noise_mask = map (\<lambda>c. c = 0) nt,
              entry_mesh_pos = pos0, entry_cells = cells0,
              entry_rollout_mask = get_rollout_mask nt\<rparr>)))))))"

record node_entry =
  features_world_pos :: tens3
  targets_world_pos :: tens3
  targets_stress :: tens3

definition feature_step ::
  "string \<Rightarrow> int \<Rightarrow> real \<Rightarrow> bool list list \<Rightarrow> nat \<Rightarrow> trajectory \<Rightarrow> error + node_entry" where
  "feature_step split num_steps noise_std noise_mask i data =
     (let f = drop_last (py_slice_to num_steps (world_pos data));
          t = push_forward_diff (py_slice_to num_steps (world_pos data));
          s = push_forward (py_slice_to num_steps (stress data))
      in if split = ''train''
         then err_bind (py_get noise_mask (int i)) (\<lambda>mask.
                let (f', t') = add_noise f t noise_std mask
                in Inr \<lparr>features_world_pos = f', targets_world_pos = t', targets_stress = s\<rparr>)
         else Inr \<lparr>features_world_pos = f, targets_world_pos = t, targets_stress = s\<rparr>)"

definition normalize_graph :: "edge_stats \<Rightarrow> graph \<Rightarrow> error + graph" where
  "normalize_graph es g =
     err_bind (normalize_edge g (edge_mean es) (edge_std es)) (\<lambda>X. Inr (g\<lparr>edata_x := Some X\<rparr>))"

definition normalize_entry :: "node_stats \<Rightarrow> node_entry \<Rightarrow> error + node_entry" where
  "normalize_entry ns e =
     err_bind (normalize_node (features_world_pos e) (world_pos_mean ns) (world_pos_std ns)) (\<lambda>f.
     err_bind (normalize_node (targets_world_pos e) (world_pos_diff_mean ns) (world_pos_diff_std ns)) (\<lambda>t.
     err_bind (normalize_node (targets_stress e) (stress_mean ns) (stress_std ns)) (\<lambda>s.
     Inr \<lparr>features_world_pos = f, targets_world_pos = t, targets_stress = s\<rparr>)))"

text \<open>The fields of \<^verbatim>\<open>self\<close>. \<open>self_node_features\<close> is the \<^verbatim>\<open>"world_pos"\<close> entry of each
  dictionary of \<^verbatim>\<open>self.node_features\<close>; \<open>self_targets_world_pos\<close> and
  \<open>self_targets_stress\<close> are the two entries of \<^verbatim>\<open>self.node_targets\<close>.\<close>

record dataset =
  self_split :: string
  self_num_samples :: int
  self_num_steps :: int
  self_noise_std :: real
  self_length :: int
  self_graphs :: "graph list"
  self_cells :: "nat list list list"
  self_node_type :: "nat list list list"
  self_rollout_mask :: "bool list list"
  self_mesh_pos :: "mat list"
  self_edge_stats :: edge_stats
  self_node_features :: "tens3 list"
  self_targets_world_pos :: "tens3 list"
  self_targets_stress :: "tens3 list"
  self_node_stats :: node_stats

text \<open>\<^verbatim>\<open>__init__\<close>. \<open>source\<close> is the content of the split's TFRecord file, read twice;
  \<open>loaded_edge\<close> and \<open>loaded_node\<close> are what \<^verbatim>\<open>load_json\<close> returns for the two
  statistics files, read on the splits other than \<^verbatim>\<open>"train"\<close>. Writing the
  statistics with \<^verbatim>\<open>save_json\<close> leaves the dataset unchanged.\<close>

definition init ::
  "string \<Rightarrow> int \<Rightarrow> int \<Rightarrow> real \<Rightarrow> trajectory list \<Rightarrow> edge_stats \<Rightarrow> node_stats \<Rightarrow> error + dataset" where
  "init split num_samples num_steps noise_std source loaded_edge loaded_node =
     err_bind (load_loop (graph_step num_steps) [0 ..< nat num_samples] source) (\<lambda>entries.
     err_bind (if split = ''train'' then get_edge_stats num_samples (map entry_graph entries)
               else Inr loaded_edge) (\<lambda>es.
     err_bind (err_map (normalize_graph es) (map entry_graph entries)) (\<lambda>graphs.
     err_bind (load_loop (feature_step split num_steps noise_std (map entry_noise_mask entries))
                 [0 ..< nat num_samples] source) (\<lambda>nodes.
     err_bind (if split = ''train''
               then get_node_stats num_samples (map features_world_pos nodes)
                      (map targets_world_pos nodes) (map targets_stress nodes)
               else Inr loaded_node) (\<lambda>ns.
     err_bind (err_map (normalize_entry ns) nodes) (\<lambda>normalized.
     Inr \<lparr>self_split = split, self_num_samples = num_samples, self_num_steps = num_steps,
          self_noise_std = noise_std,
          self_length = num_samples * (num_steps - 1),
          self_graphs = graphs,
          self_cells = (if split \<noteq> ''train'' then map entry_cells entries else []),
          self_node_type = map entry_node_type entries,
          self_rollout_mask = (if split \<noteq> ''train'' then map entry_rollout_mask entries else []),
          self_mesh_pos = (if split \<noteq> ''train'' then map entry_mesh_pos entries else []),
          self_edge_stats = es,
          self_node_features = map features_world_pos normalized,
          self_targets_world_pos = map targets_world_pos normalized,
          self_targets_stress = map targets_stress normalized,
          self_node_stats = ns\<rparr>))))))"

subsection \<open>Sample indexer\<close>

definition len :: "dataset \<Rightarrow> int" where
  "len self = self_length self"

text \<open>What \<^verbatim>\<open>__getitem__\<close> returns: the graph on the train split, the triple of the
  graph, the cells and the rollout mask on the other splits.\<close>

datatype sample = Graph graph | Triple graph "nat list list" "bool list"

text \<open>\<^verbatim>\<open>//\<close> and \<^verbatim>\<open>%\<close> of Python round towards minus infinity, as \<open>div\<close> and \<open>mod\<close> on
  \<^typ>\<open>int\<close> do, and raise ZeroDivisionError for the divisor 0.\<close>

definition graph_index :: "dataset \<Rightarrow> int \<Rightarrow> error + int" where
  "graph_index self idx =
     (if self_num_steps self - 1 = 0 then Inl ZeroDivisionError
      else Inr (idx div (self_num_steps self - 1)))"

definition time_index :: "dataset \<Rightarrow> int \<Rightarrow> error + int" where
  "time_index self idx =
     (if self_num_steps self - 1 = 0 then Inl ZeroDivisionError
      else Inr (idx mod (self_num_steps self - 1)))"

text \<open>\<^verbatim>\<open>__getitem__\<close>. The source attaches the node tensors to the stored graph
  object and returns that object; every lookup overwrites them before
  returning, so a lookup is a function of the constructed dataset.\<close>

definition getitem :: "dataset \<Rightarrow> int \<Rightarrow> error + sample" where
  "getitem self idx =
     err_bind (graph_index self idx) (\<lambda>gidx.
     err_bind (time_index self idx) (\<lambda>tidx.
     err_bind (py_get (self_graphs self) gidx) (\<lambda>g.
     err_bind (py_get (self_node_features self) gidx) (\<lambda>fw.
     err_bind (py_get fw tidx) (\<lambda>fw_t.
     err_bind (py_get (self_node_type self) gidx) (\<lambda>nt.
     err_bind (cat_last fw_t (map (map real) nt)) (\<lambda>node_features.
     err_bind (py_get (self_targets_world_pos self) gidx) (\<lambda>tw.
     err_bind (py_get tw tidx) (\<lambda>tw_t.
     err_bind (py_get (self_targets_stress self) gidx) (\<lambda>ts.
     err_bind (py_get ts tidx) (\<lambda>ts_t.
     err_bind (cat_last tw_t ts_t) (\<lambda>node_targets.
     err_bind (check_ndata g node_features) (\<lambda>x.
     err_bind (check_ndata g node_targets) (\<lambda>y.
       let g' = g\<lparr>ndata_x := Some x, ndata_y := Some y\<rparr> in
       if self_split self = ''train'' then Inr (Graph g')
       else
         err_bind (py_get (self_mesh_pos self) gidx) (\<lambda>mp.
         err_bind (check_ndata g' mp) (\<lambda>mp'.
         err_bind (py_get (self_cells self) gidx) (\<lambda>cells.
         err_bind (py_get (self_rollout_mask self) gidx) (\<lambda>rollout_mask.
           Inr (Triple (g'\<lparr>ndata_mesh_pos := Some mp'\<rparr>) cells rollout_mask)))))))))))))))))))"

text \<open>The sample of trajectory \<open>g\<close> at its local step \<open>t\<close>: the graph of the trajectory
  with the node input (normalized positions beside the one-hot node types) and
  the node target (normalized position differences beside the normalized
  stresses) attached, alone on the train split, and with the raw mesh
  positions, the cells and the rollout mask on the other splits.\<close>

definition sample_at :: "dataset \<Rightarrow> nat \<Rightarrow> nat \<Rightarrow> sample" where
  "sample_at self g t =
     (let G = (self_graphs self ! g)
            \<lparr>ndata_x := Some (map2 (@) (self_node_features self ! g ! t)
                                (map (map real) (self_node_type self ! g))),
             ndata_y := Some (map2 (@) (self_targets_world_pos self ! g ! t)
                                (self_targets_stress self ! g ! t))\<rparr>
      in if self_split self = ''train'' then Graph G
         else Triple (G\<lparr>ndata_mesh_pos := Some (self_mesh_pos self ! g)\<rparr>)
                (self_cells self ! g) (self_rollout_mask self ! g))"

text \<open>Well-formed input. The number of nodes of a mesh is one more than the
  largest node identifier of its cells; the number of nodes of a trajectory is
  the number of its node-type codes. A trajectory is well formed for \<open>num_steps\<close>
  when it has at least \<open>num_steps\<close> steps of positions and stresses, all its
  frames have one row per node, its cells are tetrahedra and every node up to
  the last belongs to the mesh.\<close>

definition mesh_nodes :: "nat list list \<Rightarrow> nat" where
  "mesh_nodes cs = (case concat cs of [] \<Rightarrow> 0 | _ \<Rightarrow> Suc (fold max (concat cs) 0))"

definition node_count :: "trajectory \<Rightarrow> nat" where
  "node_count data = size_last2 (node_type data)"

definition wf_trajectory :: "int \<Rightarrow> trajectory \<Rightarrow> bool" where
  "wf_trajectory num_steps data \<longleftrightarrow>
       num_steps \<le> int (length (world_pos data))
     \<and> num_steps \<le> int (length (stress data))
     \<and> list_all (\<lambda>F. length F = node_count data) (world_pos data)
     \<and> list_all (\<lambda>F. length F = node_count data) (stress data)
     \<and> list_all (\<lambda>F. length F = node_count data) (mesh_pos data)
     \<and> list_all (\<lambda>cs. list_all (\<lambda>cell. length cell = 4) cs \<and> mesh_nodes cs = node_count data)
          (cells data)"

text \<open>Example inputs: a trajectory of one tetrahedron with four nodes and five
  steps, statistics files with mean 0 and standard deviation 1, and the dataset
  of the eval split with no trajectory and one step.\<close>

definition tetra_cells :: "nat list list" where
  "tetra_cells = [[0, 1, 2, 3]]"

definition tetra_pos :: mat where
  "tetra_pos = [[0, 0, 0], [1, 0, 0], [0, 1, 0], [0, 0, 1]]"

definition tetra_moved :: "real \<Rightarrow> mat" where
  "tetra_moved s = map (map (\<lambda>x. x + s)) tetra_pos"

definition tetra_stress :: mat where
  "tetra_stress = [[1], [2], [3], [4]]"

definition tetra :: trajectory where
  "tetra = \<lparr>cells = [tetra_cells, tetra_cells, tetra_cells, tetra_cells, tetra_cells],
            mesh_pos = [tetra_pos, tetra_pos, tetra_pos, tetra_pos, tetra_pos],
            node_type = [[0, 0, 1, 3], [0, 0, 1, 3], [0, 0, 1, 3], [0, 0, 1, 3], [0, 0, 1, 3]],
            world_pos = [tetra_moved 0, tetra_moved 1, tetra_moved 3, tetra_moved 6, tetra_moved 10],
            stress = [tetra_stress, tetra_stress, tetra_stress, tetra_stress, tetra_stress]\<rparr>"

definition unit_edge_stats :: edge_stats where
  "unit_edge_stats = \<lparr>edge_mean = [0, 0, 0, 0], edge_std = [1, 1, 1, 1]\<rparr>"

definition unit_node_stats :: node_stats where
  "unit_node_stats = \<lparr>world_pos_mean = [0, 0, 0], world_pos_std = [1, 1, 1],
     world_pos_diff_mean = [0, 0, 0], world_pos_diff_std = [1, 1, 1],
     stress_mean = [0], stress_std = [1]\<rparr>"


section \<open>Properties\<close>

subsection \<open>Error propagation\<close>

lemma err_bind_Inr_iff: "err_bind m f = Inr z \<longleftrightarrow> (\<exists>y. m = Inr y \<and> f y = Inr z)"
  by (cases m) (simp_all add: err_bind_def)

lemma err_bind_Inr [simp]: "err_bind (Inr x) f = f x"
  by (simp add: err_bind_def)

lemma err_bind_Inl [simp]: "err_bind (Inl e) f = Inl e"
  by (simp add: err_bind_def)

lemma err_map_total: "\<forall>x\<in>set xs. f x = Inr (g x) \<Longrightarrow> err_map f xs = Inr (map g xs)"
  by (induction xs) simp_all

lemma err_map_Inr:
  "err_map f xs = Inr ys \<Longrightarrow> length ys = length xs \<and> (\<forall>i<length xs. f (xs ! i) = Inr (ys ! i))"
proof (induction xs arbitrary: ys)
  case Nil
  then show ?case by simp
next
  case (Cons x xs)
  then obtain y ys' where y: "f x = Inr y" and ys': "err_map f xs = Inr ys'" and eq: "ys = y # ys'"
    by (auto split: sum.splits)
  from Cons.IH[OF ys'] y eq show ?case
    by (auto simp: nth_Cons split: nat.splits)
qed

lemma err_map_inverse: "\<forall>x\<in>set xs. f (h x) = Inr x \<Longrightarrow> err_map f (map h xs) = Inr xs"
  by (induction xs) simp_all

subsection \<open>Temporal alignment of node features and targets\<close>

text \<open>
  Claim C3. For a position array and a stress array of \<open>num_steps\<close> steps and every
  \<open>t\<close> below \<open>num_steps - 1\<close>: the feature at \<open>t\<close> is the position at \<open>t\<close> (the last step is
  dropped), the position target at \<open>t\<close> is, entry by entry, the position at \<open>t + 1\<close>
  minus the position at \<open>t\<close>, and the stress target at \<open>t\<close> is the stress at \<open>t + 1\<close>.
  The three results are floating-point tensors of \<open>num_steps - 1\<close> steps.
\<close>

theorem temporal_alignment:
  assumes "has_shape3 wp num_steps N C" and "has_shape3 st num_steps N S" and "t < num_steps - 1"
  shows "length (drop_last wp) = num_steps - 1
       \<and> length (push_forward_diff wp) = num_steps - 1
       \<and> length (push_forward st) = num_steps - 1
       \<and> drop_last wp ! t = wp ! t
       \<and> has_shape2 (push_forward_diff wp ! t) N C
       \<and> (\<forall>n<N. \<forall>c<C. push_forward_diff wp ! t ! n ! c = wp ! (t + 1) ! n ! c - wp ! t ! n ! c)
       \<and> push_forward st ! t = st ! (t + 1)"
  using assms
  by (simp add: drop_last_def push_forward_def push_forward_diff_def has_shape3_def
      has_shape2_def nth_butlast nth_tl list_all_length msub_def vsub_def)

theorem temporal_alignment_witness:
  "has_shape3 [[[1, 2]], [[3, 5]], [[10, 20::real]]] 3 1 2
   \<and> has_shape3 [[[7]], [[8]], [[9::real]]] 3 1 1 \<and> (1::nat) < 3 - 1
   \<and> drop_last [[[1, 2]], [[3, 5]], [[10, 20]]] ! 1 = [[3, 5]]
   \<and> push_forward_diff [[[1, 2]], [[3, 5]], [[10, 20]]] ! 1 ! 0 ! 1 = 15
   \<and> push_forward [[[7]], [[8]], [[9]]] ! 1 = [[9]]"
proof -
  have a: "has_shape3 [[[1, 2]], [[3, 5]], [[10, 20::real]]] 3 1 2"
    by (simp add: has_shape3_def has_shape2_def)
  have b: "has_shape3 [[[7]], [[8]], [[9::real]]] 3 1 1"
    by (simp add: has_shape3_def has_shape2_def)
  have c: "(1::nat) < 3 - 1" by simp
  from temporal_alignment[OF a b c] a b show ?thesis
    by simp
qed

subsection \<open>Normalizer\<close>

lemma size_last3_shape: "has_shape3 x T N C \<Longrightarrow> 0 < T \<Longrightarrow> 0 < N \<Longrightarrow> size_last3 x = C"
  by (cases x; cases "hd x") (auto simp: has_shape3_def has_shape2_def size_last3_def size_last2_def)

lemma denormalize_row:
  assumes "length r = length m" "length m = length s" "\<forall>c<length s. s ! c \<noteq> 0"
  shows "err_bind (bcast (*) (vdiv (vsub r m) s) s) (\<lambda>p. bcast (+) p m) = Inr r"
proof -
  have "map2 (+) (map2 (*) (vdiv (vsub r m) s) s) m = r"
    using assms by (intro nth_equalityI) (simp_all add: vdiv_def vsub_def)
  then show ?thesis
    using assms by (simp add: bcast_def vdiv_def vsub_def)
qed

lemma denormalize_normalized:
  assumes "has_shape3 x T N C" "length m = C" "length s = C" "\<forall>c<C. s ! c \<noteq> 0"
  shows "denormalize (map (map (\<lambda>r. vdiv (vsub r m) s)) x) m s = Inr x"
proof -
  let ?f = "\<lambda>r. err_bind (bcast (*) r s) (\<lambda>p. bcast (+) p m)"
  let ?h = "\<lambda>r. vdiv (vsub r m) s"
  have "err_map ?f (map ?h F) = Inr F" if "F \<in> set x" for F
  proof (rule err_map_inverse, rule ballI)
    fix r assume "r \<in> set F"
    then have "length r = C"
      using assms(1) that by (auto simp: has_shape3_def has_shape2_def list_all_iff)
    then show "?f (?h r) = Inr r"
      using assms(2,3,4) by (intro denormalize_row) simp_all
  qed
  then have "err_map (err_map ?f) (map (map ?h) x) = Inr x"
    by (intro err_map_inverse) simp
  then show ?thesis
    by (simp add: denormalize_def)
qed

text \<open>
  Claim C4. For every node tensor \<open>x\<close> of shape \<open>(T, N, C)\<close> and statistics \<open>m\<close>, \<open>s\<close> of
  \<open>C\<close> channels with \<open>s\<close> nonzero in every channel, normalizing succeeds and
  denormalizing the result with the same statistics gives \<open>x\<close> back.
\<close>

theorem normalization_round_trip:
  assumes "has_shape3 x T N C" and "0 < T" and "0 < N"
    and "length m = C" and "length s = C" and "\<forall>c<C. s ! c \<noteq> 0"
  shows "\<exists>y. normalize_node x m s = Inr y \<and> denormalize y m s = Inr x"
proof -
  have "size_last3 x = C"
    using assms(1-3) by (rule size_last3_shape)
  then have "normalize_node x m s = Inr (map (map (\<lambda>r. vdiv (vsub r m) s)) x)"
    using assms(4,5) by (simp add: normalize_node_def)
  with denormalize_normalized[OF assms(1,4,5,6)] show ?thesis
    by simp
qed

theorem normalization_round_trip_witness:
  "normalize_node [[[1, 2, 3], [4, 5, 6]]] [1, 1, 1] [2, 4, 8] = Inr [[[0, 1 / 4, 1 / 4], [3 / 2, 1, 5 / 8]]]
   \<and> denormalize [[[0, 1 / 4, 1 / 4], [3 / 2, 1, 5 / 8]]] [1, 1, 1] [2, 4, 8] = Inr [[[1, 2, 3], [4, 5, 6]]]"
proof -
  have a: "has_shape3 [[[1, 2, 3], [4, 5, 6::real]]] 1 2 3"
    by (simp add: has_shape3_def has_shape2_def)
  have b: "\<forall>c<3. [2, 4, 8::real] ! c \<noteq> 0"
    by (simp add: less_Suc_eq numeral_3_eq_3)
  have n: "normalize_node [[[1, 2, 3], [4, 5, 6]]] [1, 1, 1] [2, 4, 8] = Inr [[[0, 1 / 4, 1 / 4], [3 / 2, 1, 5 / 8]]]"
    by (simp add: normalize_node_def size_last3_def size_last2_def vdiv_def vsub_def)
  from normalization_round_trip[OF a _ _ _ _ b, of "[1, 1, 1]"] n show ?thesis
    by simp
qed




subsection \<open>Node-type encoder\<close>

lemma mapped_codes:
  "fold (assign_where codes) mapping (replicate (length codes) (- 1)) = map encode_code codes"
  by (rule nth_equalityI) (simp_all add: mapping_def assign_where_def encode_code_def)

lemma encode_code_unmapped:
  "encode_code c = - 1 \<longleftrightarrow> \<not> (c = 0 \<or> c = 1 \<or> c = 3)"
  "- 1 = encode_code c \<longleftrightarrow> \<not> (c = 0 \<or> c = 1 \<or> c = 3)"
  by (simp_all add: encode_code_def)

lemma one_hot_encode_valid:
  assumes "\<forall>c\<in>set codes. c = 0 \<or> c = 1 \<or> c = 3"
  shows "one_hot_encode codes =
    Inr (map (\<lambda>c. if c = 0 then [1, 0, 0] else if c = 1 then [0, 1, 0] else [0, 0, 1]) codes)"
proof -
  have no: "\<not> list_ex (\<lambda>m. m = - 1) (map encode_code codes)"
    using assms by (auto simp: list_ex_iff encode_code_unmapped)
  have "\<forall>m\<in>set (map encode_code codes). one_hot 3 (unat m) = Inr ((\<lambda>m. if m = 0 then [1, 0, 0] else if m = 1 then [0, 1, 0] else [0, 0, 1]) m)"
    using assms by (auto simp: encode_code_def one_hot_def upt_rec numeral_3_eq_3)
  from err_map_total[OF this]
  have "err_map (\<lambda>m. one_hot 3 (unat m)) (map encode_code codes) =
    Inr (map (\<lambda>c. if encode_code c = 0 then [1, 0, 0] else if encode_code c = 1 then [0, 1, 0] else [0, 0, 1]) codes)"
    by (simp add: comp_def)
  moreover have "map (\<lambda>c. if encode_code c = 0 then [1, 0, 0] else if encode_code c = 1 then [0, 1, 0] else [0, 0, 1::nat]) codes
    = map (\<lambda>c. if c = 0 then [1, 0, 0] else if c = 1 then [0, 1, 0] else [0, 0, 1]) codes"
    using assms by (intro map_cong) (auto simp: encode_code_def)
  ultimately show ?thesis
    using no by (simp add: one_hot_encode_def mapped_codes)
qed

text \<open>
  Claim C6. For every uint8 node-type tensor whose codes all lie in \<open>{0, 1, 3}\<close> the
  encoder returns one row of three categories per node, every row sums to 1 and
  has its 1 at the category of the code (0 to 0, 1 to 1, 3 to 2); for every
  tensor with a code outside \<open>{0, 1, 3}\<close> the encoder raises ValueError.
\<close>

theorem node_type_encoder:
  "((\<forall>c\<in>set codes. c = 0 \<or> c = 1 \<or> c = 3) \<longrightarrow>
      (\<exists>oh. one_hot_encode codes = Inr oh \<and> length oh = length codes
         \<and> (\<forall>i<length codes. length (oh ! i) = 3 \<and> sum_list (oh ! i) = 1
              \<and> oh ! i ! (if codes ! i = 0 then 0 else if codes ! i = 1 then 1 else 2) = 1)))
   \<and> ((\<exists>c\<in>set codes. \<not> (c = 0 \<or> c = 1 \<or> c = 3)) \<longrightarrow> one_hot_encode codes = Inl ValueError)"
proof (intro conjI impI)
  assume "\<forall>c\<in>set codes. c = 0 \<or> c = 1 \<or> c = 3"
  from one_hot_encode_valid[OF this]
  show "\<exists>oh. one_hot_encode codes = Inr oh \<and> length oh = length codes
         \<and> (\<forall>i<length codes. length (oh ! i) = 3 \<and> sum_list (oh ! i) = 1
              \<and> oh ! i ! (if codes ! i = 0 then 0 else if codes ! i = 1 then 1 else 2) = 1)"
    by simp
next
  assume "\<exists>c\<in>set codes. \<not> (c = 0 \<or> c = 1 \<or> c = 3)"
  then obtain c where "c \<in> set codes" "encode_code c = - 1"
    by (auto simp: encode_code_unmapped)
  then have "list_ex (\<lambda>m. m = - 1) (map encode_code codes)"
    unfolding list_ex_iff by (metis imageI list.set_map)
  then show "one_hot_encode codes = Inl ValueError"
    by (simp add: one_hot_encode_def mapped_codes)
qed

theorem node_type_encoder_witness:
  "(\<exists>oh. one_hot_encode [0, 3, 1] = Inr oh \<and> length oh = 3 \<and> sum_list (oh ! 1) = 1 \<and> oh ! 1 ! 2 = 1)
   \<and> one_hot_encode [0, 2, 1] = Inl ValueError \<and> one_hot_encode [255] = Inl ValueError"
proof -
  have a: "\<forall>c\<in>set [0, 3, 1 :: 8 word]. c = 0 \<or> c = 1 \<or> c = 3" by simp
  have b: "\<exists>c\<in>set [0, 2, 1 :: 8 word]. \<not> (c = 0 \<or> c = 1 \<or> c = 3)" by simp
  have c: "\<exists>c\<in>set [255 :: 8 word]. \<not> (c = 0 \<or> c = 1 \<or> c = 3)" by simp
  from node_type_encoder[of "[0, 3, 1]"] a
  obtain oh where oh: "one_hot_encode [0, 3, 1] = Inr oh" "length oh = length [0, 3, 1 :: 8 word]"
    and rows: "\<forall>i<length [0, 3, 1 :: 8 word]. length (oh ! i) = 3 \<and> sum_list (oh ! i) = 1
              \<and> oh ! i ! (if [0, 3, 1 :: 8 word] ! i = 0 then 0 else if [0, 3, 1 :: 8 word] ! i = 1 then 1 else 2) = 1"
    by blast
  from rows have "sum_list (oh ! 1) = 1 \<and> oh ! 1 ! 2 = 1"
    by (auto dest!: spec[of _ 1])
  with oh node_type_encoder[of "[0, 2, 1]"] b node_type_encoder[of "[255]"] c show ?thesis
    by simp
qed

text \<open>
  The constructor narrows the node types of the file to uint8 before it encodes
  them. A code of the file between 0 and 255 is its own uint8 value, so for such
  codes the mapped set \<open>{0, 1, 3}\<close> is that of the file; a code outside this
  range reaches the encoder and the masks as its residue modulo 256.
\<close>

lemma uint8_cast_exact:
  assumes "0 \<le> c" and "c < 256"
  shows "(of_int c :: 8 word) = 0 \<longleftrightarrow> c = 0"
    and "(of_int c :: 8 word) = 1 \<longleftrightarrow> c = 1"
    and "(of_int c :: 8 word) = 3 \<longleftrightarrow> c = 3"
proof -
  have u: "uint (of_int c :: 8 word) = c"
    using assms by (simp add: uint_word_of_int take_bit_eq_mod)
  have "(of_int c :: 8 word) = w \<longleftrightarrow> c = uint w" for w :: "8 word"
    using u by (auto simp: word_uint_eq_iff)
  from this[of 0] this[of 1] this[of 3]
  show "(of_int c :: 8 word) = 0 \<longleftrightarrow> c = 0"
    and "(of_int c :: 8 word) = 1 \<longleftrightarrow> c = 1"
    and "(of_int c :: 8 word) = 3 \<longleftrightarrow> c = 3"
    by simp_all
qed

subsection \<open>Topology builder\<close>

lemma cell_to_adj_tetra:
  assumes "\<forall>cell\<in>set tets. length cell = 4"
  shows "cell_to_adj tets =
    Inr (map (\<lambda>(cell, (a, b)). cell ! a) (List.product tets edge_indices),
         map (\<lambda>(cell, (a, b)). cell ! b) (List.product tets edge_indices))"
proof -
  have "\<forall>p\<in>set (List.product tets edge_indices).
          (\<lambda>(cell, (a, b)). cell_get cell a) p = Inr ((\<lambda>(cell, (a, b)). cell ! a) p)"
    using assms by (auto simp: cell_get_def edge_indices_def)
  moreover have "\<forall>p\<in>set (List.product tets edge_indices).
          (\<lambda>(cell, (a, b)). cell_get cell b) p = Inr ((\<lambda>(cell, (a, b)). cell ! b) p)"
    using assms by (auto simp: cell_get_def edge_indices_def)
  ultimately show ?thesis
    unfolding cell_to_adj_def by (simp only: err_map_total err_bind_Inr)
qed

lemma set_edges_to_bidirected:
  "set (edges (to_bidirected g)) = set (edges g) \<union> (set (edges g))\<inverse>"
  by (auto simp: to_bidirected_def to_simple_def add_reverse_edges_def)

lemma distinct_edges_to_bidirected: "distinct (edges (to_bidirected g))"
  by (simp add: to_bidirected_def to_simple_def)

lemma zip_product_edges:
  "set (zip (map (\<lambda>(cell, (a, b)). cell ! a) (List.product tets edge_indices))
            (map (\<lambda>(cell, (a, b)). cell ! b) (List.product tets edge_indices)))
   = {(cell ! a, cell ! b) | cell a b. cell \<in> set tets \<and> (a, b) \<in> set edge_indices}"
  by (force simp: zip_map_map zip_same_conv_map )

text \<open>
  Claim C7. For every array of tetrahedral cells (four node identifiers each),
  \<^verbatim>\<open>cell_to_adj\<close> lists six node pairs per cell; inside \<^verbatim>\<open>to_bidirected\<close> the graph
  with the reverse edges added, before the duplicates are removed, has exactly
  \<open>12 * num_cells\<close> directed edges; the final graph has no duplicate edge, every
  edge \<open>(u, v)\<close> of it has its mirror \<open>(v, u)\<close>, and both orientations of the six
  vertex pairs of every cell are edges of it.
\<close>

theorem topology_builder:
  assumes "\<forall>cell\<in>set tets. length cell = 4"
  shows "\<exists>src dst g0 g.
           cell_to_adj tets = Inr (src, dst)
         \<and> length src = 6 * length tets \<and> length dst = 6 * length tets
         \<and> dgl_graph src dst = Inr g0
         \<and> length (edges (add_reverse_edges g0)) = 12 * length tets
         \<and> create_graph src dst = Inr g \<and> g = to_simple (add_reverse_edges g0)
         \<and> distinct (edges g)
         \<and> (\<forall>(u, v)\<in>set (edges g). (v, u) \<in> set (edges g))
         \<and> (\<forall>cell\<in>set tets. \<forall>(a, b)\<in>set edge_indices.
               (cell ! a, cell ! b) \<in> set (edges g) \<and> (cell ! b, cell ! a) \<in> set (edges g))"
proof -
  let ?src = "map (\<lambda>(cell, (a, b)). cell ! a) (List.product tets edge_indices)"
  let ?dst = "map (\<lambda>(cell, (a, b)). cell ! b) (List.product tets edge_indices)"
  let ?g0 = "\<lparr>num_nodes = (case ?src @ ?dst of [] \<Rightarrow> 0 | _ \<Rightarrow> Suc (fold max (?src @ ?dst) 0)),
              edges = zip ?src ?dst,
              edata_x = None, ndata_x = None, ndata_y = None, ndata_mesh_pos = None\<rparr>"
  have adj: "cell_to_adj tets = Inr (?src, ?dst)"
    using assms by (rule cell_to_adj_tetra)
  have len: "length ?src = 6 * length tets" "length ?dst = 6 * length tets"
    by (simp_all add: edge_indices_def)
  have g0: "dgl_graph ?src ?dst = Inr ?g0"
    by (simp add: dgl_graph_def)
  have rev: "length (edges (add_reverse_edges ?g0)) = 12 * length tets"
    by (simp add: add_reverse_edges_def edge_indices_def)
  have g: "create_graph ?src ?dst = Inr (to_bidirected ?g0)"
    by (simp add: create_graph_def g0)
  have sym: "\<forall>(u, v)\<in>set (edges (to_bidirected ?g0)). (v, u) \<in> set (edges (to_bidirected ?g0))"
    unfolding set_edges_to_bidirected by auto
  have cover: "\<forall>cell\<in>set tets. \<forall>(a, b)\<in>set edge_indices.
      (cell ! a, cell ! b) \<in> set (edges (to_bidirected ?g0)) \<and> (cell ! b, cell ! a) \<in> set (edges (to_bidirected ?g0))"
    unfolding set_edges_to_bidirected by (auto simp: zip_product_edges)
  from adj len g0 rev g sym cover distinct_edges_to_bidirected[of ?g0] show ?thesis
    unfolding to_bidirected_def by blast
qed


theorem topology_builder_witness:
  "\<exists>src dst g. cell_to_adj [[0, 1, 2, 3], [1, 2, 3, 4]] = Inr (src, dst) \<and> length src = 12
      \<and> create_graph src dst = Inr g \<and> (4, 1) \<in> set (edges g) \<and> (1, 4) \<in> set (edges g)"
proof -
  have a: "\<forall>cell\<in>set [[0, 1, 2, 3], [1, 2, 3, 4::nat]]. length cell = 4" by simp
  from topology_builder[OF a] obtain src dst g0 g where
    "cell_to_adj [[0, 1, 2, 3], [1, 2, 3, 4]] = Inr (src, dst)" "length src = 6 * length [[0, 1, 2, 3], [1, 2, 3, 4::nat]]"
    "create_graph src dst = Inr g"
    and cover: "\<forall>cell\<in>set [[0, 1, 2, 3], [1, 2, 3, 4::nat]]. \<forall>(a, b)\<in>set edge_indices.
               (cell ! a, cell ! b) \<in> set (edges g) \<and> (cell ! b, cell ! a) \<in> set (edges g)"
    by blast
  moreover from cover have "(4, 1) \<in> set (edges g) \<and> (1, 4) \<in> set (edges g)"
    by (simp add: edge_indices_def)
  ultimately show ?thesis
    by auto
qed

subsection \<open>Edge features\<close>

lemma vsub_nth: "c < length a \<Longrightarrow> c < length b \<Longrightarrow> vsub a b ! c = a ! c - b ! c"
  by (simp add: vsub_def)

lemma length_vsub: "length (vsub a b) = min (length a) (length b)"
  by (simp add: vsub_def)

lemma norm2_swap: "length a = length b \<Longrightarrow> norm2 (vsub b a) = norm2 (vsub a b)"
proof -
  assume "length a = length b"
  then have "map (\<lambda>x. x * x) (vsub b a) = map (\<lambda>x. x * x) (vsub a b)"
    by (intro nth_equalityI) (simp_all add: vsub_def algebra_simps)
  then show ?thesis
    by (simp add: norm2_def)
qed

lemma norm2_nonneg: "0 \<le> norm2 d"
  by (auto simp: norm2_def intro!: sum_list_nonneg)

lemma edge_feature_mirror:
  assumes "length (pos ! u) = D" "length (pos ! v) = D"
  shows "length (edge_feature pos (u, v)) = D + 1"
    and "\<forall>c<D. edge_feature pos (v, u) ! c = - (edge_feature pos (u, v) ! c)"
    and "edge_feature pos (v, u) ! D = edge_feature pos (u, v) ! D"
    and "0 \<le> edge_feature pos (u, v) ! D"
  using assms norm2_swap[of "pos ! u" "pos ! v"]
  by (simp_all add: edge_feature_def Let_def length_vsub nth_append vsub_nth norm2_nonneg)

text \<open>
  Claim C10. In the graph that \<^verbatim>\<open>add_edge_features\<close> returns for a graph of
  \<^verbatim>\<open>create_graph\<close> and positions of \<open>D\<close> coordinates (\<open>D = 3\<close> for the mesh
  positions), every edge has a mirror edge, and for an edge and its mirror the
  \<open>D\<close> displacement channels are negations of each other while the last channel,
  the norm, is the same on both and not negative.
\<close>

theorem mirror_edge_features:
  assumes "create_graph src dst = Inr g" and "add_edge_features g pos = Inr g'"
    and "has_shape2 pos N D"
  shows "\<exists>X. edata_x g' = Some X \<and> edges g' = edges g \<and> length X = length (edges g)
     \<and> (\<forall>i<length (edges g). \<exists>j<length (edges g). edges g ! j = (snd (edges g ! i), fst (edges g ! i)))
     \<and> (\<forall>i<length (edges g). \<forall>j<length (edges g).
           edges g ! j = (snd (edges g ! i), fst (edges g ! i)) \<longrightarrow>
             length (X ! i) = D + 1
           \<and> (\<forall>c<D. X ! j ! c = - (X ! i ! c))
           \<and> X ! j ! D = X ! i ! D
           \<and> 0 \<le> X ! i ! D)"
proof -
  let ?X = "map (edge_feature pos) (edges g)"
  from assms(2) have inb: "\<forall>(u, v)\<in>set (edges g). u < length pos \<and> v < length pos"
    and g': "g' = g\<lparr>edata_x := Some ?X\<rparr>"
    by (auto simp: add_edge_features_def list_ex_iff split: if_splits)
  from assms(1) obtain g0 where g: "g = to_bidirected g0"
    by (auto simp: create_graph_def err_bind_Inr_iff)
  have mirror: "\<exists>j<length (edges g). edges g ! j = (snd (edges g ! i), fst (edges g ! i))"
    if "i < length (edges g)" for i
  proof -
    from that have "edges g ! i \<in> set (edges g)" by simp
    then have "(snd (edges g ! i), fst (edges g ! i)) \<in> set (edges g)"
      unfolding g set_edges_to_bidirected by (cases "edges g ! i") auto
    then show ?thesis by (auto simp: in_set_conv_nth)
  qed
  have feat: "length (?X ! i) = D + 1 \<and> (\<forall>c<D. ?X ! j ! c = - (?X ! i ! c))
           \<and> ?X ! j ! D = ?X ! i ! D \<and> 0 \<le> ?X ! i ! D"
    if i: "i < length (edges g)" and j: "j < length (edges g)"
      and sw: "edges g ! j = (snd (edges g ! i), fst (edges g ! i))" for i j
  proof -
    obtain u v where uv: "edges g ! i = (u, v)" by (cases "edges g ! i")
    with i inb have "u < length pos" "v < length pos"
      by (metis case_prodD nth_mem)+
    with assms(3) have "length (pos ! u) = D" "length (pos ! v) = D"
      by (simp_all add: has_shape2_def list_all_length)
    from edge_feature_mirror[OF this] i j sw uv show ?thesis
      by simp
  qed
  from g' mirror feat show ?thesis
    by auto
qed

theorem mirror_edge_features_witness:
  "\<exists>g g' X. create_graph [0] [1] = Inr g \<and> add_edge_features g [[0, 0, 0], [3, 4, 0]] = Inr g'
     \<and> edges g = [(0, 1), (1, 0)] \<and> edata_x g' = Some X
     \<and> X ! 1 ! 0 = - (X ! 0 ! 0) \<and> X ! 1 ! 3 = X ! 0 ! 3 \<and> 0 \<le> X ! 0 ! 3"
proof -
  let ?g = "\<lparr>num_nodes = 2, edges = [(0, 1), (1, 0)], edata_x = None, ndata_x = None,
             ndata_y = None, ndata_mesh_pos = None\<rparr>"
  let ?pos = "[[0, 0, 0], [3, 4, 0::real]]"
  have a: "create_graph [0] [1] = Inr ?g"
    by (simp add: create_graph_def dgl_graph_def to_bidirected_def to_simple_def
        add_reverse_edges_def)
  obtain g' where b: "add_edge_features ?g ?pos = Inr g'"
    by (simp add: add_edge_features_def)
  have c: "has_shape2 ?pos 2 3"
    by (simp add: has_shape2_def)
  from mirror_edge_features[OF a b c] obtain X where
    "edata_x g' = Some X"
    and *: "\<forall>i<length (edges ?g). \<forall>j<length (edges ?g).
           edges ?g ! j = (snd (edges ?g ! i), fst (edges ?g ! i)) \<longrightarrow>
             length (X ! i) = 3 + 1 \<and> (\<forall>c<3. X ! j ! c = - (X ! i ! c))
           \<and> X ! j ! 3 = X ! i ! 3 \<and> 0 \<le> X ! i ! 3"
    by blast
  moreover from *[rule_format, of 0 1]
  have "X ! 1 ! 0 = - (X ! 0 ! 0) \<and> X ! 1 ! 3 = X ! 0 ! 3 \<and> 0 \<le> X ! 0 ! 3"
    by simp
  ultimately show ?thesis
    using a b by auto
qed

subsection \<open>Streaming statistics engine\<close>













lemma py_get_nat: "i < length xs \<Longrightarrow> py_get xs (int i) = Inr (xs ! i)"
  by (simp add: py_get_def)







subsection \<open>Dataset construction\<close>

lemma load_loop_Inr:
  "load_loop f js src = Inr ys \<Longrightarrow>
     length ys = length js \<and> length js \<le> length src \<and> (\<forall>k<length js. f (js ! k) (src ! k) = Inr (ys ! k))"
proof (induction js arbitrary: src ys)
  case Nil
  then show ?case by simp
next
  case (Cons i rest)
  show ?case
  proof (cases src)
    case Nil
    with Cons.prems show ?thesis by simp
  next
    case (Cons data it)
    with Cons.prems obtain y ys' where y: "f i data = Inr y" and ys': "load_loop f rest it = Inr ys'"
      and eq: "ys = y # ys'"
      by (auto simp: err_bind_Inr_iff)
    from Cons.IH[OF ys'] y eq Cons show ?thesis
      by (auto simp: nth_Cons split: nat.splits)
  qed
qed

lemma init_Inr:
  assumes "init split ns n noise source ledge lnode = Inr ds"
  obtains entries es graphs nodes nst normalized where
    "load_loop (graph_step n) [0 ..< nat ns] source = Inr entries"
    "(if split = ''train'' then get_edge_stats ns (map entry_graph entries) else Inr ledge) = Inr es"
    "err_map (normalize_graph es) (map entry_graph entries) = Inr graphs"
    "load_loop (feature_step split n noise (map entry_noise_mask entries)) [0 ..< nat ns] source = Inr nodes"
    "(if split = ''train''
               then get_node_stats ns (map features_world_pos nodes)
                      (map targets_world_pos nodes) (map targets_stress nodes)
               else Inr lnode) = Inr nst"
    "err_map (normalize_entry nst) nodes = Inr normalized"
    "ds = \<lparr>self_split = split, self_num_samples = ns, self_num_steps = n,
          self_noise_std = noise,
          self_length = ns * (n - 1),
          self_graphs = graphs,
          self_cells = (if split \<noteq> ''train'' then map entry_cells entries else []),
          self_node_type = map entry_node_type entries,
          self_rollout_mask = (if split \<noteq> ''train'' then map entry_rollout_mask entries else []),
          self_mesh_pos = (if split \<noteq> ''train'' then map entry_mesh_pos entries else []),
          self_edge_stats = es,
          self_node_features = map features_world_pos normalized,
          self_targets_world_pos = map targets_world_pos normalized,
          self_targets_stress = map targets_stress normalized,
          self_node_stats = nst\<rparr>"
proof -
  from assms obtain entries es graphs nodes nst normalized where
    a: "load_loop (graph_step n) [0 ..< nat ns] source = Inr entries"
    and b: "(if split = ''train'' then get_edge_stats ns (map entry_graph entries) else Inr ledge) = Inr es"
    and c: "err_map (normalize_graph es) (map entry_graph entries) = Inr graphs"
    and d: "load_loop (feature_step split n noise (map entry_noise_mask entries)) [0 ..< nat ns] source = Inr nodes"
    and e: "(if split = ''train''
               then get_node_stats ns (map features_world_pos nodes)
                      (map targets_world_pos nodes) (map targets_stress nodes)
               else Inr lnode) = Inr nst"
    and f: "err_map (normalize_entry nst) nodes = Inr normalized"
    and g: "Inr \<lparr>self_split = split, self_num_samples = ns, self_num_steps = n,
          self_noise_std = noise,
          self_length = ns * (n - 1),
          self_graphs = graphs,
          self_cells = (if split \<noteq> ''train'' then map entry_cells entries else []),
          self_node_type = map entry_node_type entries,
          self_rollout_mask = (if split \<noteq> ''train'' then map entry_rollout_mask entries else []),
          self_mesh_pos = (if split \<noteq> ''train'' then map entry_mesh_pos entries else []),
          self_edge_stats = es,
          self_node_features = map features_world_pos normalized,
          self_targets_world_pos = map targets_world_pos normalized,
          self_targets_stress = map targets_stress normalized,
          self_node_stats = nst\<rparr> = (Inr ds :: error + dataset)"
    unfolding init_def err_bind_Inr_iff by blast
  from g have "ds = \<lparr>self_split = split, self_num_samples = ns, self_num_steps = n,
          self_noise_std = noise,
          self_length = ns * (n - 1),
          self_graphs = graphs,
          self_cells = (if split \<noteq> ''train'' then map entry_cells entries else []),
          self_node_type = map entry_node_type entries,
          self_rollout_mask = (if split \<noteq> ''train'' then map entry_rollout_mask entries else []),
          self_mesh_pos = (if split \<noteq> ''train'' then map entry_mesh_pos entries else []),
          self_edge_stats = es,
          self_node_features = map features_world_pos normalized,
          self_targets_world_pos = map targets_world_pos normalized,
          self_targets_stress = map targets_stress normalized,
          self_node_stats = nst\<rparr>"
    by (simp only: sum.inject)
  with a b c d e f show thesis
    by (rule that)
qed


lemma py_get_first: "py_get (py_slice_to k xs) 0 = Inr x \<Longrightarrow> xs \<noteq> [] \<and> x = xs ! 0"
  by (cases xs) (auto simp: py_get_def py_slice_to_def split: if_splits)

lemma graph_step_Inr:
  assumes "graph_step n i d = Inr e"
  obtains src dst gb where
    "cells d \<noteq> []" "mesh_pos d \<noteq> []" "node_type d \<noteq> []"
    "cell_to_adj (cells d ! 0) = Inr (src, dst)"
    "create_graph src dst = Inr gb"
    "add_edge_features gb (mesh_pos d ! 0) = Inr (entry_graph e)"
    "one_hot_encode (map of_int (node_type d ! 0)) = Inr (entry_node_type e)"
    "entry_mesh_pos e = mesh_pos d ! 0"
    "entry_cells e = cells d ! 0"
    "entry_rollout_mask e = get_rollout_mask (map of_int (node_type d ! 0))"
proof -
  from assms obtain cells0 src dst gb pos0 g' codes oh where
    a: "py_get (py_slice_to n (cells d)) 0 = Inr cells0"
    and b: "cell_to_adj cells0 = Inr (src, dst)"
    and c: "create_graph src dst = Inr gb"
    and p: "py_get (py_slice_to n (mesh_pos d)) 0 = Inr pos0"
    and f: "add_edge_features gb pos0 = Inr g'"
    and t: "py_get (py_slice_to n (node_type d)) 0 = Inr codes"
    and o: "one_hot_encode (map of_int codes) = Inr oh"
    and e: "entry_graph e = g'" "entry_node_type e = oh" "entry_mesh_pos e = pos0"
      "entry_cells e = cells0" "entry_rollout_mask e = get_rollout_mask (map of_int codes)"
    by (auto simp: graph_step_def err_bind_Inr_iff Let_def)
  from py_get_first[OF a] py_get_first[OF p] py_get_first[OF t] b c f o e show thesis
    by (intro that[of src dst gb]) simp_all
qed

lemma feature_step_Inr:
  assumes "feature_step split n noise masks i d = Inr ne"
  shows "features_world_pos ne = drop_last (py_slice_to n (world_pos d))"
    and "targets_world_pos ne = push_forward_diff (py_slice_to n (world_pos d))"
    and "targets_stress ne = push_forward (py_slice_to n (stress d))"
  using assms
  by (auto simp: feature_step_def Let_def add_noise_def err_bind_Inr_iff split: if_splits)

lemma normalize_entry_Inr:
  assumes "normalize_entry nst ne = Inr ne'"
  shows "normalize_node (features_world_pos ne) (world_pos_mean nst) (world_pos_std nst)
           = Inr (features_world_pos ne')"
    and "normalize_node (targets_world_pos ne) (world_pos_diff_mean nst) (world_pos_diff_std nst)
           = Inr (targets_world_pos ne')"
    and "normalize_node (targets_stress ne) (stress_mean nst) (stress_std nst)
           = Inr (targets_stress ne')"
  using assms by (auto simp: normalize_entry_def err_bind_Inr_iff)

lemma normalize_node_Inr:
  assumes "normalize_node x m s = Inr y"
  shows "length y = length x" and "t < length x \<Longrightarrow> length (y ! t) = length (x ! t)"
  using assms by (auto simp: normalize_node_def split: if_splits)

lemma normalize_graph_Inr:
  assumes "normalize_graph es g = Inr g'"
  obtains E where "normalize_edge g (edge_mean es) (edge_std es) = Inr E" "g' = g\<lparr>edata_x := Some E\<rparr>"
  using assms by (auto simp: normalize_graph_def err_bind_Inr_iff)


lemma fold_max_set: "set xs = set ys \<Longrightarrow> fold max xs (0::nat) = fold max ys 0"
proof -
  assume "set xs = set ys"
  then have "Max (set (0 # xs)) = Max (set (0 # ys))" by simp
  then show ?thesis by (simp only: Max.set_eq_fold)
qed

lemma set_tetra: "length cell = 4 \<Longrightarrow> set cell = {cell ! 0, cell ! 1, cell ! 2, cell ! 3}"
proof -
  assume "length cell = 4"
  then obtain a b c d where "cell = [a, b, c, d]"
    by (auto simp: numeral_eq_Suc length_Suc_conv)
  then show ?thesis by auto
qed

lemma create_graph_nodes:
  assumes "\<forall>cell\<in>set cs. length cell = 4" and "cell_to_adj cs = Inr (src, dst)"
    and "create_graph src dst = Inr g"
  shows "num_nodes g = mesh_nodes cs"
proof -
  let ?src = "map (\<lambda>(cell, (a, b)). cell ! a) (List.product cs edge_indices)"
  let ?dst = "map (\<lambda>(cell, (a, b)). cell ! b) (List.product cs edge_indices)"
  from assms(1,2) have sd: "src = ?src" "dst = ?dst"
    by (simp_all add: cell_to_adj_tetra)
  have in_src: "cell ! a \<in> set src" and in_dst: "cell ! b \<in> set dst"
    if "cell \<in> set cs" "(a, b) \<in> set edge_indices" for cell a b
    unfolding sd using that by (auto intro!: image_eqI[where x="(cell, (a, b))"])
  have "set (src @ dst) \<subseteq> (\<Union>cell\<in>set cs. {cell ! 0, cell ! 1, cell ! 2, cell ! 3})"
    unfolding sd by (auto simp: edge_indices_def)
  moreover have "{cell ! 0, cell ! 1, cell ! 2, cell ! 3} \<subseteq> set (src @ dst)" if "cell \<in> set cs" for cell
    using in_src[OF that, of 0 1] in_src[OF that, of 1 2] in_src[OF that, of 2 3] in_dst[OF that, of 0 3]
    by (simp add: edge_indices_def)
  ultimately have "set (src @ dst) = (\<Union>cell\<in>set cs. {cell ! 0, cell ! 1, cell ! 2, cell ! 3})"
    by blast
  also have "\<dots> = (\<Union>cell\<in>set cs. set cell)"
    using assms(1) by (simp add: set_tetra)
  finally have eq: "set (src @ dst) = set (concat cs)"
    by simp
  then have "src @ dst = [] \<longleftrightarrow> concat cs = []"
    by (metis set_empty)
  moreover have "length src = length dst"
    unfolding sd by simp
  moreover have case_if: "(case xs of [] \<Rightarrow> 0 | _ \<Rightarrow> Suc (fold max xs 0))
      = (if xs = [] then 0 else Suc (fold max xs 0))" for xs :: "nat list"
    by (cases xs) simp_all
  ultimately show ?thesis
    using assms(3) fold_max_set[OF eq]
    by (auto simp: create_graph_def dgl_graph_def to_bidirected_def to_simple_def
        add_reverse_edges_def mesh_nodes_def err_bind_Inr_iff case_if)
qed

lemma add_edge_features_nodes: "add_edge_features g pos = Inr g' \<Longrightarrow> num_nodes g' = num_nodes g"
  by (auto simp: add_edge_features_def split: if_splits)

lemma one_hot_encode_length: "one_hot_encode codes = Inr oh \<Longrightarrow> length oh = length codes"
  using err_map_Inr[of "\<lambda>m. one_hot 3 (unat m)" "map encode_code codes" oh]
  by (auto simp: one_hot_encode_def mapped_codes Let_def split: if_splits)


lemma built_lengths:
  assumes "init split ns n noise source ledge lnode = Inr ds"
  shows "self_split ds = split" and "self_num_samples ds = ns" and "self_num_steps ds = n"
    and "self_length ds = ns * (n - 1)"
    and "length (self_graphs ds) = nat ns" and "length (self_node_type ds) = nat ns"
    and "length (self_node_features ds) = nat ns"
    and "length (self_targets_world_pos ds) = nat ns"
    and "length (self_targets_stress ds) = nat ns"
    and "length (self_mesh_pos ds) = (if split = ''train'' then 0 else nat ns)"
    and "length (self_cells ds) = (if split = ''train'' then 0 else nat ns)"
    and "length (self_rollout_mask ds) = (if split = ''train'' then 0 else nat ns)"
proof -
  from assms obtain entries es graphs nodes nst normalized where
    a: "load_loop (graph_step n) [0 ..< nat ns] source = Inr entries"
    and c: "err_map (normalize_graph es) (map entry_graph entries) = Inr graphs"
    and d: "load_loop (feature_step split n noise (map entry_noise_mask entries)) [0 ..< nat ns] source = Inr nodes"
    and f: "err_map (normalize_entry nst) nodes = Inr normalized"
    and ds: "ds = \<lparr>self_split = split, self_num_samples = ns, self_num_steps = n,
          self_noise_std = noise,
          self_length = ns * (n - 1),
          self_graphs = graphs,
          self_cells = (if split \<noteq> ''train'' then map entry_cells entries else []),
          self_node_type = map entry_node_type entries,
          self_rollout_mask = (if split \<noteq> ''train'' then map entry_rollout_mask entries else []),
          self_mesh_pos = (if split \<noteq> ''train'' then map entry_mesh_pos entries else []),
          self_edge_stats = es,
          self_node_features = map features_world_pos normalized,
          self_targets_world_pos = map targets_world_pos normalized,
          self_targets_stress = map targets_stress normalized,
          self_node_stats = nst\<rparr>"
    by (rule init_Inr)
  have le: "length entries = nat ns" using load_loop_Inr[OF a] by simp
  have lg: "length graphs = nat ns" using err_map_Inr[OF c] le by simp
  have ln: "length nodes = nat ns" using load_loop_Inr[OF d] by simp
  have lz: "length normalized = nat ns" using err_map_Inr[OF f] ln by simp
  show "self_split ds = split" "self_num_samples ds = ns" "self_num_steps ds = n"
    "self_length ds = ns * (n - 1)"
    "length (self_graphs ds) = nat ns" "length (self_node_type ds) = nat ns"
    "length (self_node_features ds) = nat ns"
    "length (self_targets_world_pos ds) = nat ns"
    "length (self_targets_stress ds) = nat ns"
    "length (self_mesh_pos ds) = (if split = ''train'' then 0 else nat ns)"
    "length (self_cells ds) = (if split = ''train'' then 0 else nat ns)"
    "length (self_rollout_mask ds) = (if split = ''train'' then 0 else nat ns)"
    using le lg ln lz by (simp_all add: ds)
qed

lemma built_trajectory:
  assumes "init split ns n noise source ledge lnode = Inr ds" and "g < nat ns"
  shows "g < length source"
    and "cells (source ! g) \<noteq> []" and "mesh_pos (source ! g) \<noteq> []"
    and "node_type (source ! g) \<noteq> []"
    and "\<exists>src dst gb g0 E.
        cell_to_adj (cells (source ! g) ! 0) = Inr (src, dst)
      \<and> create_graph src dst = Inr gb
      \<and> add_edge_features gb (mesh_pos (source ! g) ! 0) = Inr g0
      \<and> normalize_edge g0 (edge_mean (self_edge_stats ds)) (edge_std (self_edge_stats ds)) = Inr E
      \<and> self_graphs ds ! g = g0\<lparr>edata_x := Some E\<rparr>"
    and "one_hot_encode (map of_int (node_type (source ! g) ! 0)) = Inr (self_node_type ds ! g)"
    and "normalize_node (drop_last (py_slice_to n (world_pos (source ! g))))
       (world_pos_mean (self_node_stats ds)) (world_pos_std (self_node_stats ds))
       = Inr (self_node_features ds ! g)"
    and "normalize_node (push_forward_diff (py_slice_to n (world_pos (source ! g))))
       (world_pos_diff_mean (self_node_stats ds)) (world_pos_diff_std (self_node_stats ds))
       = Inr (self_targets_world_pos ds ! g)"
    and "normalize_node (push_forward (py_slice_to n (stress (source ! g))))
       (stress_mean (self_node_stats ds)) (stress_std (self_node_stats ds))
       = Inr (self_targets_stress ds ! g)"
    and "split \<noteq> ''train'' \<Longrightarrow> self_mesh_pos ds ! g = mesh_pos (source ! g) ! 0"
    and "split \<noteq> ''train'' \<Longrightarrow> self_cells ds ! g = cells (source ! g) ! 0"
    and "split \<noteq> ''train'' \<Longrightarrow>
       self_rollout_mask ds ! g = get_rollout_mask (map of_int (node_type (source ! g) ! 0))"
proof -
  from assms(1) obtain entries es graphs nodes nst normalized where
    a: "load_loop (graph_step n) [0 ..< nat ns] source = Inr entries"
    and c: "err_map (normalize_graph es) (map entry_graph entries) = Inr graphs"
    and d: "load_loop (feature_step split n noise (map entry_noise_mask entries)) [0 ..< nat ns] source = Inr nodes"
    and f: "err_map (normalize_entry nst) nodes = Inr normalized"
    and ds: "ds = \<lparr>self_split = split, self_num_samples = ns, self_num_steps = n,
          self_noise_std = noise,
          self_length = ns * (n - 1),
          self_graphs = graphs,
          self_cells = (if split \<noteq> ''train'' then map entry_cells entries else []),
          self_node_type = map entry_node_type entries,
          self_rollout_mask = (if split \<noteq> ''train'' then map entry_rollout_mask entries else []),
          self_mesh_pos = (if split \<noteq> ''train'' then map entry_mesh_pos entries else []),
          self_edge_stats = es,
          self_node_features = map features_world_pos normalized,
          self_targets_world_pos = map targets_world_pos normalized,
          self_targets_stress = map targets_stress normalized,
          self_node_stats = nst\<rparr>"
    by (rule init_Inr)
  note A = load_loop_Inr[OF a] and C = err_map_Inr[OF c] and D = load_loop_Inr[OF d]
    and F = err_map_Inr[OF f]
  have le: "length entries = nat ns" using A by simp
  have ln: "length nodes = nat ns" using D by simp
  have lz: "length normalized = nat ns" using F ln by simp
  have gs: "g < length source" using A assms(2) by simp
  have step: "graph_step n g (source ! g) = Inr (entries ! g)"
    using A assms(2) by simp
  have norm: "normalize_graph es (entry_graph (entries ! g)) = Inr (graphs ! g)"
    using C le assms(2) by simp
  have feat: "feature_step split n noise (map entry_noise_mask entries) g (source ! g) = Inr (nodes ! g)"
    using D assms(2) by simp
  have nent: "normalize_entry nst (nodes ! g) = Inr (normalized ! g)"
    using F ln assms(2) by simp
  from graph_step_Inr[OF step] obtain src dst gb where
    G: "cells (source ! g) \<noteq> []" "mesh_pos (source ! g) \<noteq> []" "node_type (source ! g) \<noteq> []"
    "cell_to_adj (cells (source ! g) ! 0) = Inr (src, dst)"
    "create_graph src dst = Inr gb"
    "add_edge_features gb (mesh_pos (source ! g) ! 0) = Inr (entry_graph (entries ! g))"
    "one_hot_encode (map of_int (node_type (source ! g) ! 0)) = Inr (entry_node_type (entries ! g))"
    "entry_mesh_pos (entries ! g) = mesh_pos (source ! g) ! 0"
    "entry_cells (entries ! g) = cells (source ! g) ! 0"
    "entry_rollout_mask (entries ! g) = get_rollout_mask (map of_int (node_type (source ! g) ! 0))"
    by blast
  from normalize_graph_Inr[OF norm] obtain E where
    E: "normalize_edge (entry_graph (entries ! g)) (edge_mean es) (edge_std es) = Inr E"
    "graphs ! g = (entry_graph (entries ! g))\<lparr>edata_x := Some E\<rparr>"
    by blast
  note FS = feature_step_Inr[OF feat] and NE = normalize_entry_Inr[OF nent]
  show "g < length source" by (rule gs)
  show "cells (source ! g) \<noteq> []" "mesh_pos (source ! g) \<noteq> []" "node_type (source ! g) \<noteq> []"
    by (rule G)+
  have "self_graphs ds ! g = (entry_graph (entries ! g))\<lparr>edata_x := Some E\<rparr>"
    "self_edge_stats ds = es"
    using E by (simp_all add: ds)
  with G(4,5,6) E(1) show "\<exists>src dst gb g0 E.
        cell_to_adj (cells (source ! g) ! 0) = Inr (src, dst)
      \<and> create_graph src dst = Inr gb
      \<and> add_edge_features gb (mesh_pos (source ! g) ! 0) = Inr g0
      \<and> normalize_edge g0 (edge_mean (self_edge_stats ds)) (edge_std (self_edge_stats ds)) = Inr E
      \<and> self_graphs ds ! g = g0\<lparr>edata_x := Some E\<rparr>"
    by (intro exI[of _ src] exI[of _ dst] exI[of _ gb] exI[of _ "entry_graph (entries ! g)"]
        exI[of _ E]) simp
  show "one_hot_encode (map of_int (node_type (source ! g) ! 0)) = Inr (self_node_type ds ! g)"
    using G(7) le assms(2) by (simp add: ds)
  show "normalize_node (drop_last (py_slice_to n (world_pos (source ! g))))
       (world_pos_mean (self_node_stats ds)) (world_pos_std (self_node_stats ds))
       = Inr (self_node_features ds ! g)"
    using NE(1) FS(1) lz assms(2) by (simp add: ds)
  show "normalize_node (push_forward_diff (py_slice_to n (world_pos (source ! g))))
       (world_pos_diff_mean (self_node_stats ds)) (world_pos_diff_std (self_node_stats ds))
       = Inr (self_targets_world_pos ds ! g)"
    using NE(2) FS(2) lz assms(2) by (simp add: ds)
  show "normalize_node (push_forward (py_slice_to n (stress (source ! g))))
       (stress_mean (self_node_stats ds)) (stress_std (self_node_stats ds))
       = Inr (self_targets_stress ds ! g)"
    using NE(3) FS(3) lz assms(2) by (simp add: ds)
  show "split \<noteq> ''train'' \<Longrightarrow> self_mesh_pos ds ! g = mesh_pos (source ! g) ! 0"
    using G(8) le assms(2) by (simp add: ds)
  show "split \<noteq> ''train'' \<Longrightarrow> self_cells ds ! g = cells (source ! g) ! 0"
    using G(9) le assms(2) by (simp add: ds)
  show "split \<noteq> ''train'' \<Longrightarrow>
       self_rollout_mask ds ! g = get_rollout_mask (map of_int (node_type (source ! g) ! 0))"
    using G(10) le assms(2) by (simp add: ds)
qed

lemma wf_tetra: "wf_trajectory 5 tetra"
  by (simp add: wf_trajectory_def tetra_def tetra_pos_def tetra_stress_def tetra_cells_def
      tetra_moved_def node_count_def
      size_last2_def mesh_nodes_def)

lemma upt_nat_3: "[0 ..< 3] = [0, 1, 2::nat]"
  by (simp add: upt_rec)

lemma init_eval_tetra:
  "\<exists>ds. init ''eval'' 3 5 0 [tetra, tetra, tetra] unit_edge_stats unit_node_stats = Inr ds"
  by (simp add: init_def upt_nat_3 graph_step_def tetra_def py_get_def py_slice_to_def cell_to_adj_def
      edge_indices_def cell_get_def create_graph_def dgl_graph_def to_bidirected_def
      to_simple_def add_reverse_edges_def add_edge_features_def one_hot_encode_def
      mapping_def assign_where_def one_hot_def Let_def tetra_pos_def tetra_stress_def
      tetra_cells_def tetra_moved_def
      unit_edge_stats_def unit_node_stats_def normalize_graph_def normalize_edge_def
      size_last2_def size_last3_def edge_feature_def vsub_def feature_step_def
      normalize_entry_def normalize_node_def drop_last_def push_forward_def
      push_forward_diff_def msub_def)



subsection \<open>Sample indexer\<close>

lemma index_split:
  assumes "t < nat (n - 1)"
  shows "(int g * (n - 1) + int t) div (n - 1) = int g"
    and "(int g * (n - 1) + int t) mod (n - 1) = int t"
  using assms by simp_all

lemma getitem_sample:
  assumes init: "init split ns n noise source ledge lnode = Inr ds"
    and wf: "list_all (wf_trajectory n) source"
    and g: "g < nat ns" and t: "t < nat (n - 1)"
  shows "getitem ds (int g * (n - 1) + int t) = Inr (sample_at ds g t)"
proof -
  note L = built_lengths[OF init]
  note B = built_trajectory[OF init g]
  note gs = B(1) and ne = B(2,3,4) and oh = B(6) and nf = B(7) and nw = B(8) and nst = B(9)
    and mp = B(10)
  from B(5) obtain src dst gb g0 E where
    adj: "cell_to_adj (cells (source ! g) ! 0) = Inr (src, dst)"
    and cg: "create_graph src dst = Inr gb"
    and ae: "add_edge_features gb (mesh_pos (source ! g) ! 0) = Inr g0"
    and gg: "self_graphs ds ! g = g0\<lparr>edata_x := Some E\<rparr>"
    by (elim exE conjE)
  let ?d = "source ! g" and ?N = "node_count (source ! g)"
  from wf gs have wfd: "wf_trajectory n ?d"
    by (simp add: list_all_length)
  have n2: "2 \<le> n" using t by simp
  have tn: "Suc t < nat n" using t by simp
  let ?wp = "py_slice_to n (world_pos ?d)" and ?st = "py_slice_to n (stress ?d)"
  have w: "n \<le> int (length (world_pos ?d))" "n \<le> int (length (stress ?d))"
    "\<forall>F\<in>set (world_pos ?d). length F = ?N" "\<forall>F\<in>set (stress ?d). length F = ?N"
    using wfd by (simp_all add: wf_trajectory_def list_all_iff)
  have lwp: "length ?wp = nat n" and lst: "length ?st = nat n"
    using w(1,2) n2 by (auto simp: py_slice_to_def)
  have fwp: "length (?wp ! k) = ?N" if "k < nat n" for k
  proof -
    have "?wp ! k = world_pos ?d ! k" "k < length (world_pos ?d)"
      using w(1) n2 that by (auto simp: py_slice_to_def)
    then show ?thesis using w(3) by simp
  qed
  have fst: "length (?st ! k) = ?N" if "k < nat n" for k
  proof -
    have "?st ! k = stress ?d ! k" "k < length (stress ?d)"
      using w(2) n2 that by (auto simp: py_slice_to_def)
    then show ?thesis using w(4) by simp
  qed
  have x1: "t < length (drop_last ?wp)" "length (drop_last ?wp ! t) = ?N"
    using lwp tn fwp[of t] by (simp_all add: drop_last_def nth_butlast)
  have x2: "t < length (push_forward_diff ?wp)" "length (push_forward_diff ?wp ! t) = ?N"
    using lwp tn fwp[of t] fwp[of "Suc t"]
    by (simp_all add: push_forward_diff_def nth_butlast nth_tl msub_def)
  have x3: "t < length (push_forward ?st)" "length (push_forward ?st ! t) = ?N"
    using lst tn fst[of "Suc t"] by (simp_all add: push_forward_def nth_tl)
  have f1: "t < length (self_node_features ds ! g)" "length (self_node_features ds ! g ! t) = ?N"
    using normalize_node_Inr[OF nf] x1 by simp_all
  have f2: "t < length (self_targets_world_pos ds ! g)" "length (self_targets_world_pos ds ! g ! t) = ?N"
    using normalize_node_Inr[OF nw] x2 by simp_all
  have f3: "t < length (self_targets_stress ds ! g)" "length (self_targets_stress ds ! g ! t) = ?N"
    using normalize_node_Inr[OF nst] x3 by simp_all
  have nt: "length (self_node_type ds ! g) = ?N"
    using one_hot_encode_length[OF oh] ne(3)
    by (cases "node_type ?d") (simp_all add: node_count_def size_last2_def)
  have c0: "cells ?d ! 0 \<in> set (cells ?d)" and m0: "mesh_pos ?d ! 0 \<in> set (mesh_pos ?d)"
    using ne by simp_all
  have tet: "\<forall>cell\<in>set (cells ?d ! 0). length cell = 4" and mn: "mesh_nodes (cells ?d ! 0) = ?N"
    using wfd c0 by (auto simp: wf_trajectory_def list_all_iff)
  have nn: "num_nodes (self_graphs ds ! g) = ?N"
    using create_graph_nodes[OF tet adj cg] add_edge_features_nodes[OF ae] mn by (simp add: gg)
  have lmp: "length (mesh_pos ?d ! 0) = ?N"
    using wfd m0 by (auto simp: wf_trajectory_def list_all_iff)
  have gi: "graph_index ds (int g * (n - 1) + int t) = Inr (int g)"
    and ti: "time_index ds (int g * (n - 1) + int t) = Inr (int t)"
    using n2 index_split[OF t, of g] by (simp_all add: graph_index_def time_index_def L)
  have p1: "py_get (self_graphs ds) (int g) = Inr (self_graphs ds ! g)"
    and p2: "py_get (self_node_features ds) (int g) = Inr (self_node_features ds ! g)"
    and p3: "py_get (self_node_type ds) (int g) = Inr (self_node_type ds ! g)"
    and p4: "py_get (self_targets_world_pos ds) (int g) = Inr (self_targets_world_pos ds ! g)"
    and p5: "py_get (self_targets_stress ds) (int g) = Inr (self_targets_stress ds ! g)"
    using g L(5-9) by (simp_all add: py_get_nat)
  have q1: "py_get (self_node_features ds ! g) (int t) = Inr (self_node_features ds ! g ! t)"
    and q2: "py_get (self_targets_world_pos ds ! g) (int t) = Inr (self_targets_world_pos ds ! g ! t)"
    and q3: "py_get (self_targets_stress ds ! g) (int t) = Inr (self_targets_stress ds ! g ! t)"
    using f1(1) f2(1) f3(1) by (simp_all add: py_get_nat)
  let ?x = "map2 (@) (self_node_features ds ! g ! t) (map (map real) (self_node_type ds ! g))"
  let ?y = "map2 (@) (self_targets_world_pos ds ! g ! t) (self_targets_stress ds ! g ! t)"
  have c1: "cat_last (self_node_features ds ! g ! t) (map (map real) (self_node_type ds ! g)) = Inr ?x"
    using f1(2) nt by (simp add: cat_last_def)
  have c2: "cat_last (self_targets_world_pos ds ! g ! t) (self_targets_stress ds ! g ! t) = Inr ?y"
    using f2(2) f3(2) by (simp add: cat_last_def)
  have k1: "check_ndata (self_graphs ds ! g) ?x = Inr ?x"
    using f1(2) nt nn by (simp add: check_ndata_def)
  have k2: "check_ndata (self_graphs ds ! g) ?y = Inr ?y"
    using f2(2) f3(2) nn by (simp add: check_ndata_def)
  let ?G = "(self_graphs ds ! g)\<lparr>ndata_x := Some ?x, ndata_y := Some ?y\<rparr>"
  have main: "getitem ds (int g * (n - 1) + int t) =
      (if self_split ds = ''train'' then Inr (Graph ?G)
       else
         err_bind (py_get (self_mesh_pos ds) (int g)) (\<lambda>mp.
         err_bind (check_ndata ?G mp) (\<lambda>mp'.
         err_bind (py_get (self_cells ds) (int g)) (\<lambda>cells.
         err_bind (py_get (self_rollout_mask ds) (int g)) (\<lambda>rollout_mask.
           Inr (Triple (?G\<lparr>ndata_mesh_pos := Some mp'\<rparr>) cells rollout_mask))))))"
    unfolding getitem_def gi ti
    by (simp only: err_bind_Inr p1 p2 p3 p4 p5 q1 q2 q3 c1 c2 k1 k2 Let_def)
  show ?thesis
  proof (cases "split = ''train''")
    case True
    then show ?thesis
      unfolding main by (simp add: sample_at_def L(1))
  next
    case False
    have r1: "py_get (self_mesh_pos ds) (int g) = Inr (self_mesh_pos ds ! g)"
      and r2: "py_get (self_cells ds) (int g) = Inr (self_cells ds ! g)"
      and r3: "py_get (self_rollout_mask ds) (int g) = Inr (self_rollout_mask ds ! g)"
      using g False L(10-12) by (simp_all add: py_get_nat)
    have r4: "check_ndata ?G (self_mesh_pos ds ! g) = Inr (self_mesh_pos ds ! g)"
      using mp[OF False] lmp nn by (simp add: check_ndata_def)
    from False show ?thesis
      unfolding main by (simp add: sample_at_def L(1) r1 r2 r3 r4)
  qed
qed

lemma int_div_less:
  fixes a k m :: int
  assumes "0 < k" and "a < m * k"
  shows "a div k < m"
proof (rule ccontr)
  assume "\<not> a div k < m"
  then have "m * k \<le> a div k * k"
    using assms(1) by (simp add: mult_right_mono)
  moreover have "a div k * k + a mod k = a" by simp
  moreover have "0 \<le> a mod k" using assms(1) by simp
  ultimately show False using assms(2) by linarith
qed


lemma flat_index:
  assumes "0 \<le> ns" and "0 \<le> idx" and "idx < ns * (n - 1)"
  shows "0 < n - 1" and "0 \<le> idx div (n - 1)" and "idx div (n - 1) < ns"
    and "0 \<le> idx mod (n - 1)" and "idx mod (n - 1) < n - 1"
    and "int (nat (idx div (n - 1))) * (n - 1) + int (nat (idx mod (n - 1))) = idx"
proof -
  have "0 < ns * (n - 1)" using assms(2,3) by simp
  with assms(1) show pos: "0 < n - 1"
    by (simp add: zero_less_mult_iff)
  then show d0: "0 \<le> idx div (n - 1)" and m0: "0 \<le> idx mod (n - 1)" and "idx mod (n - 1) < n - 1"
    using assms(2) by (simp_all add: pos_imp_zdiv_nonneg_iff)
  show "idx div (n - 1) < ns"
    using assms(3) pos by (intro int_div_less) simp_all
  have "int (nat (idx div (n - 1))) = idx div (n - 1)" "int (nat (idx mod (n - 1))) = idx mod (n - 1)"
    using d0 m0 by simp_all
  then show "int (nat (idx div (n - 1))) * (n - 1) + int (nat (idx mod (n - 1))) = idx"
    by (simp only: div_mult_mod_eq)
qed





text \<open>
  Claim C2. For every dataset built from well-formed trajectories with
  \<open>num_samples\<close> trajectories and \<open>num_steps\<close> steps, \<^verbatim>\<open>__len__\<close> is
  \<open>num_samples * (num_steps - 1)\<close>, and for every flat index \<open>idx\<close> from 0 up to the
  length \<^verbatim>\<open>__getitem__\<close> computes the trajectory \<open>idx div (num_steps - 1)\<close>, which is
  below \<open>num_samples\<close>, and the local step \<open>idx mod (num_steps - 1)\<close>, which is below
  \<open>num_steps - 1\<close>, and returns the sample of that trajectory at that step. With
  \<open>num_samples = 3\<close> and \<open>num_steps = 5\<close> the length is 12, index 7 is trajectory 1
  step 3 and index 11 is trajectory 2 step 3.
\<close>

theorem sample_indexer:
  assumes "init split ns n noise source ledge lnode = Inr ds"
    and "list_all (wf_trajectory n) source" and "0 \<le> ns"
  shows "len ds = ns * (n - 1)
     \<and> (\<forall>idx. 0 \<le> idx \<and> idx < len ds \<longrightarrow>
            graph_index ds idx = Inr (idx div (n - 1))
          \<and> time_index ds idx = Inr (idx mod (n - 1))
          \<and> 0 \<le> idx div (n - 1) \<and> idx div (n - 1) < ns
          \<and> 0 \<le> idx mod (n - 1) \<and> idx mod (n - 1) < n - 1
          \<and> getitem ds idx = Inr (sample_at ds (nat (idx div (n - 1))) (nat (idx mod (n - 1)))))
     \<and> (ns = 3 \<and> n = 5 \<longrightarrow>
            len ds = 12
          \<and> graph_index ds 7 = Inr 1 \<and> time_index ds 7 = Inr 3
          \<and> graph_index ds 11 = Inr 2 \<and> time_index ds 11 = Inr 3)"
proof -
  note L = built_lengths[OF assms(1)]
  have len: "len ds = ns * (n - 1)"
    by (simp add: len_def L)
  have item: "graph_index ds idx = Inr (idx div (n - 1))
          \<and> time_index ds idx = Inr (idx mod (n - 1))
          \<and> 0 \<le> idx div (n - 1) \<and> idx div (n - 1) < ns
          \<and> 0 \<le> idx mod (n - 1) \<and> idx mod (n - 1) < n - 1
          \<and> getitem ds idx = Inr (sample_at ds (nat (idx div (n - 1))) (nat (idx mod (n - 1))))"
    if "0 \<le> idx \<and> idx < len ds" for idx
  proof -
    from that len have r: "0 \<le> idx" "idx < ns * (n - 1)" by simp_all
    note F = flat_index[OF assms(3) r]
    have g: "nat (idx div (n - 1)) < nat ns" and t: "nat (idx mod (n - 1)) < nat (n - 1)"
      using F by simp_all
    from getitem_sample[OF assms(1,2) g t] F(6)
    have "getitem ds idx = Inr (sample_at ds (nat (idx div (n - 1))) (nat (idx mod (n - 1))))"
      by simp
    with F show ?thesis
      by (simp add: graph_index_def time_index_def L)
  qed
  have "len ds = 12 \<and> graph_index ds 7 = Inr 1 \<and> time_index ds 7 = Inr 3
          \<and> graph_index ds 11 = Inr 2 \<and> time_index ds 11 = Inr 3" if "ns = 3 \<and> n = 5"
    using that len by (simp add: graph_index_def time_index_def L)
  with len item show ?thesis
    by blast
qed

theorem sample_indexer_witness:
  "\<exists>ds. init ''eval'' 3 5 0 [tetra, tetra, tetra] unit_edge_stats unit_node_stats = Inr ds
      \<and> len ds = 12
      \<and> graph_index ds 7 = Inr 1 \<and> time_index ds 7 = Inr 3
      \<and> graph_index ds 11 = Inr 2 \<and> time_index ds 11 = Inr 3
      \<and> getitem ds 7 = Inr (sample_at ds 1 3) \<and> getitem ds 11 = Inr (sample_at ds 2 3)"
proof -
  from init_eval_tetra obtain ds where
    ds: "init ''eval'' 3 5 0 [tetra, tetra, tetra] unit_edge_stats unit_node_stats = Inr ds"
    by blast
  have wf: "list_all (wf_trajectory 5) [tetra, tetra, tetra]"
    by (simp add: wf_tetra)
  note S = sample_indexer[OF ds wf]
  from S have len: "len ds = 12" by simp
  from S have "\<forall>idx. 0 \<le> idx \<and> idx < len ds \<longrightarrow>
      getitem ds idx = Inr (sample_at ds (nat (idx div (5 - 1))) (nat (idx mod (5 - 1))))"
    by simp
  from this[rule_format, of 7] this[rule_format, of 11] len
  have "getitem ds 7 = Inr (sample_at ds 1 3)" "getitem ds 11 = Inr (sample_at ds 2 3)"
    by simp_all
  moreover from S have "graph_index ds 7 = Inr 1 \<and> time_index ds 7 = Inr 3
      \<and> graph_index ds 11 = Inr 2 \<and> time_index ds 11 = Inr 3"
    by simp
  ultimately show ?thesis
    using ds len by blast
qed








end
